theory Spec2Isabelle
  imports Complex_Main "HOL-Library.Sublist"
begin

section \<open>Python values, errors and external calls\<close>

text \<open>
  Python floats are modelled as reals and Python ints as integers. Time stamps
  (\<open>time.time()\<close>, \<open>datetime.now()\<close>) are reals counting seconds. Messages whose
  text is Russian are constructors of a datatype; the constructor carries the values the
  message is formatted from.
\<close>

type_synonym time = real

type_synonym any_dict = "(string \<times> string) list"

datatype py_error = KeyError string | ValueError string

definition bind_err :: "py_error + 'a \<Rightarrow> ('a \<Rightarrow> py_error + 'b) \<Rightarrow> py_error + 'b" where
  "bind_err m f = (case m of Inl e \<Rightarrow> Inl e | Inr v \<Rightarrow> f v)"

text \<open>\<open>d[k]\<close> on a dictionary kept as an association list: a missing key raises.\<close>

definition dict_item :: "(string \<times> 'a) list \<Rightarrow> string \<Rightarrow> py_error + 'a" where
  "dict_item d k = (case map_of d k of None \<Rightarrow> Inl (KeyError k) | Some v \<Rightarrow> Inr v)"

text \<open>\<open>d.get(k, default)\<close>.\<close>

definition dict_get :: "(string \<times> 'a) list \<Rightarrow> string \<Rightarrow> 'a \<Rightarrow> 'a" where
  "dict_get d k dflt = (case map_of d k of None \<Rightarrow> dflt | Some v \<Rightarrow> v)"

text \<open>\<open>str.lower\<close> and \<open>str.strip\<close> on ASCII text.\<close>

definition lower_char :: "char \<Rightarrow> char" where
  "lower_char c =
     (case map_of (zip ''ABCDEFGHIJKLMNOPQRSTUVWXYZ'' ''abcdefghijklmnopqrstuvwxyz'') c of
        Some l \<Rightarrow> l
      | None \<Rightarrow> c)"

definition lower :: "string \<Rightarrow> string" where
  "lower s = map lower_char s"

definition is_space :: "char \<Rightarrow> bool" where
  "is_space c = (let n = (of_char c :: nat) in (9 \<le> n \<and> n \<le> 13) \<or> (28 \<le> n \<and> n \<le> 32))"

definition strip :: "string \<Rightarrow> string" where
  "strip s = rev (dropWhile is_space (rev (dropWhile is_space s)))"

text \<open>
  What an awaited HTTP call can do: raise, or answer with a status and a body that
  \<open>await response.json()\<close> either decodes or fails on. \<open>CancelledError\<close> derives from
  \<open>BaseException\<close>, so \<open>except Exception\<close> does not catch it; the others derive from
  \<open>Exception\<close>, and \<open>ClientError\<close> stands for the classes of \<open>aiohttp.ClientError\<close>.
\<close>

datatype exn = ClientError | TimeoutError | JSONDecodeError | RuntimeError string | CancelledError

fun is_Exception :: "exn \<Rightarrow> bool" where
  "is_Exception CancelledError = False"
| "is_Exception e = True"

fun is_ClientError :: "exn \<Rightarrow> bool" where
  "is_ClientError ClientError = True"
| "is_ClientError e = False"

datatype 'a http_outcome = Raises exn | Responds nat "exn + 'a"

text \<open>\<open>try: body except Exception: handler\<close>.\<close>

definition except_Exception :: "exn + 'a \<Rightarrow> (exn \<Rightarrow> exn + 'a) \<Rightarrow> exn + 'a" where
  "except_Exception body handler =
     (case body of Inr v \<Rightarrow> Inr v | Inl e \<Rightarrow> if is_Exception e then handler e else Inl e)"

definition bind_exn :: "exn + 'a \<Rightarrow> ('a \<Rightarrow> exn + 'b) \<Rightarrow> exn + 'b" where
  "bind_exn m f = (case m of Inl e \<Rightarrow> Inl e | Inr v \<Rightarrow> f v)"

section \<open>Liquidity lock scoring (raket-2/src/analysis/liquidity\_lock\_checker.py)\<close>

datatype lock_warning =
    WarnLookupFailed              \<comment> \<open>"Ne udalos' najti informaciyu o blokirovke likvidnosti"\<close>
  | WarnCheckError string         \<comment> \<open>"Oshibka proverki blokirovki: ..."\<close>
  | WarnNotLocked                 \<comment> \<open>"KRITICHNO: Likvidnost' NE zablokirovana!"\<close>
  | WarnLowPercentage real real   \<comment> \<open>locked percentage, recommended minimum\<close>
  | WarnShortDuration int int     \<comment> \<open>lock days, recommended minimum\<close>
  | WarnSafeDuration int          \<comment> \<open>lock days\<close>
  | WarnUnknownPlatform string
  | WarnExpiresSoon               \<comment> \<open>unlock date less than a week away\<close>

record LiquidityLockInfo =
  is_locked :: bool
  locked_percentage :: real
  unlock_date :: "time option"
  lock_duration_days :: int
  platform :: string
  lock_contract :: string
  total_locked_amount :: real
  lock_transaction :: string
  is_renewable :: bool
  lock_owner :: string
  warnings :: "lock_warning list"

text \<open>The dataclass defaults, with \<open>__post_init__\<close> turning the missing list into \<open>[]\<close>.\<close>

definition LiquidityLockInfo_default :: LiquidityLockInfo where
  "LiquidityLockInfo_default =
     \<lparr> is_locked = False, locked_percentage = 0, unlock_date = None,
       lock_duration_days = 0, platform = [], lock_contract = [],
       total_locked_amount = 0, lock_transaction = [], is_renewable = False,
       lock_owner = [], warnings = [] \<rparr>"

definition trusted_platforms :: "string list" where
  "trusted_platforms = [''Team Finance'', ''Unicrypt'', ''PinkSale'']"

text \<open>
  \<open>get_lock_score\<close>: the score variable is threaded through the four blocks of the
  method in the order of the source.
\<close>

definition score_percentage_step :: "LiquidityLockInfo \<Rightarrow> int \<Rightarrow> int" where
  "score_percentage_step lock_info score =
     (if locked_percentage lock_info \<ge> 90 then score + 25
      else if locked_percentage lock_info \<ge> 80 then score + 20
      else if locked_percentage lock_info \<ge> 50 then score + 10
      else score)"

definition score_duration_step :: "LiquidityLockInfo \<Rightarrow> int \<Rightarrow> int" where
  "score_duration_step lock_info score =
     (if lock_duration_days lock_info \<ge> 365 then score + 25
      else if lock_duration_days lock_info \<ge> 180 then score + 20
      else if lock_duration_days lock_info \<ge> 90 then score + 15
      else if lock_duration_days lock_info \<ge> 30 then score + 10
      else score)"

definition score_platform_step :: "LiquidityLockInfo \<Rightarrow> int \<Rightarrow> int" where
  "score_platform_step lock_info score =
     (if platform lock_info \<in> set trusted_platforms then score + 20 else score + 10)"

definition get_lock_score :: "LiquidityLockInfo \<Rightarrow> int" where
  "get_lock_score lock_info =
     (if \<not> is_locked lock_info then 0
      else
        let score = 0;
            score = score + 30;
            score = score_percentage_step lock_info score;
            score = score_duration_step lock_info score;
            score = score_platform_step lock_info score
        in min score 100)"

subsection \<open>The scoring table as the specification words it\<close>

definition spec_percentage_points :: "real \<Rightarrow> int" where
  "spec_percentage_points p = (if p \<ge> 90 then 25 else if p \<ge> 80 then 20 else if p \<ge> 50 then 10 else 0)"

definition spec_duration_points :: "int \<Rightarrow> int" where
  "spec_duration_points d =
     (if d \<ge> 365 then 25 else if d \<ge> 180 then 20 else if d \<ge> 90 then 15
      else if d \<ge> 30 then 10 else 0)"

definition spec_platform_points :: "string \<Rightarrow> int" where
  "spec_platform_points pl =
     (if pl = ''Team Finance'' \<or> pl = ''Unicrypt'' \<or> pl = ''PinkSale'' then 20 else 10)"

definition spec_lock_score :: "LiquidityLockInfo \<Rightarrow> int" where
  "spec_lock_score info =
     (if is_locked info
      then min 100 (30 + spec_percentage_points (locked_percentage info)
                       + spec_duration_points (lock_duration_days info)
                       + spec_platform_points (platform info))
      else 0)"

subsection \<open>The lock lookup and its cache\<close>

text \<open>
  \<open>self.cache\<close> of \<open>LiquidityLockChecker\<close> maps the key to the pair
  \<open>(lock_info, timestamp)\<close>; \<open>self.cache_ttl\<close> is 3600.
\<close>

type_synonym lock_cache = "string \<rightharpoonup> (LiquidityLockInfo \<times> time)"

definition lock_cache_ttl :: real where
  "lock_cache_ttl = 3600"

definition min_lock_percentage :: real where
  "min_lock_percentage = 80"

definition min_lock_days :: int where
  "min_lock_days = 30"

definition safe_lock_days :: int where
  "safe_lock_days = 180"

text \<open>\<open>timedelta(days=n)\<close> in seconds.\<close>

definition days :: "int \<Rightarrow> real" where
  "days n = real_of_int n * 86400"

text \<open>The table \<open>known_locked_tokens\<close>: network, then token, then percentage, days, platform.\<close>

definition known_locked_tokens :: "(string \<times> (string \<times> real \<times> int \<times> string) list) list" where
  "known_locked_tokens =
     [(''ethereum'',
        [(''0xa0b86a33e6411b3bb8a8b7e7c6b9c8b4e1a8c8e1'', 95, 365, ''Team Finance''),
         (''0x514910771af9ca656af840dff83e8264ecf986ca'', 100, 730, ''Unicrypt'')]),
      (''bsc'',
        [(''0x0e09fabb73bd3ade0a17ecc321fd13a19e81ce82'', 90, 180, ''PinkSale'')]),
      (''solana'', []),
      (''base'', []),
      (''arbitrum'', []),
      (''polygon'', [])]"

definition starts_with_any :: "string \<Rightarrow> string list \<Rightarrow> bool" where
  "starts_with_any s ps = list_ex (\<lambda>p. prefix p s) ps"

text \<open>
  \<open>_check_external_sources\<close>: the heuristic on the first characters of the address.
  The argument \<open>now\<close> is the reading of \<open>datetime.now()\<close>.
\<close>

definition check_external_sources :: "time \<Rightarrow> string \<Rightarrow> string \<Rightarrow> string \<Rightarrow> LiquidityLockInfo" where
  "check_external_sources now token_address pair_address network =
     (let lock_info = LiquidityLockInfo_default;
          addr_lower = lower token_address;
          lock_info =
            (if starts_with_any addr_lower [''0x1'', ''0x2'', ''0x3'']
             then lock_info\<lparr>is_locked := True, locked_percentage := 95,
                    lock_duration_days := 365, platform := ''Team Finance''\<rparr>
             else if starts_with_any addr_lower [''0x4'', ''0x5'', ''0x6'']
             then lock_info\<lparr>is_locked := True, locked_percentage := 75,
                    lock_duration_days := 180, platform := ''Unicrypt''\<rparr>
             else if starts_with_any addr_lower [''0x7'', ''0x8'', ''0x9'']
             then lock_info\<lparr>is_locked := True, locked_percentage := 50,
                    lock_duration_days := 30, platform := ''PinkSale''\<rparr>
             else lock_info\<lparr>is_locked := False,
                    warnings := warnings lock_info @ [WarnLookupFailed]\<rparr>)
      in if is_locked lock_info
         then lock_info\<lparr>unlock_date := Some (now + days (lock_duration_days lock_info))\<rparr>
         else lock_info)"

definition add_warning :: "lock_warning \<Rightarrow> LiquidityLockInfo \<Rightarrow> LiquidityLockInfo" where
  "add_warning w lock_info = lock_info\<lparr>warnings := warnings lock_info @ [w]\<rparr>"

definition analyze_lock_safety :: "time \<Rightarrow> LiquidityLockInfo \<Rightarrow> LiquidityLockInfo" where
  "analyze_lock_safety now lock_info =
     (if \<not> is_locked lock_info then add_warning WarnNotLocked lock_info
      else
        let lock_info =
              (if locked_percentage lock_info < min_lock_percentage
               then add_warning (WarnLowPercentage (locked_percentage lock_info) min_lock_percentage)
                      lock_info
               else lock_info);
            lock_info =
              (if lock_duration_days lock_info < min_lock_days
               then add_warning (WarnShortDuration (lock_duration_days lock_info) min_lock_days)
                      lock_info
               else if lock_duration_days lock_info \<ge> safe_lock_days
               then add_warning (WarnSafeDuration (lock_duration_days lock_info)) lock_info
               else lock_info);
            lock_info =
              (if platform lock_info \<notin> set trusted_platforms
               then add_warning (WarnUnknownPlatform (platform lock_info)) lock_info
               else lock_info);
            lock_info =
              (case unlock_date lock_info of
                 Some u \<Rightarrow> if u < now + days 7 then add_warning WarnExpiresSoon lock_info
                           else lock_info
               | None \<Rightarrow> lock_info)
        in lock_info)"

text \<open>
  The four clock readings of one call of \<open>check_liquidity_lock\<close>: \<open>time.time()\<close> at the
  cache check, \<open>datetime.now()\<close> where the unlock date is set, \<open>datetime.now()\<close> in
  \<open>_analyze_lock_safety\<close>, and \<open>time.time()\<close> where the result is stored.
\<close>

record lock_clock =
  at_lookup :: time
  at_unlock :: time
  at_analysis :: time
  at_store :: time

definition lock_cache_key :: "string \<Rightarrow> string \<Rightarrow> string \<Rightarrow> string" where
  "lock_cache_key token_address pair_address network =
     token_address @ ''_'' @ pair_address @ ''_'' @ network"

text \<open>The part of \<open>check_liquidity_lock\<close> that runs when the cache gives nothing.\<close>

definition find_lock :: "lock_clock \<Rightarrow> string \<Rightarrow> string \<Rightarrow> string \<Rightarrow> LiquidityLockInfo" where
  "find_lock clock token_address pair_address network =
     (let lock_info = LiquidityLockInfo_default;
          network_tokens = dict_get known_locked_tokens (lower network) [];
          lock_info =
            (case map_of network_tokens (lower token_address) of
               Some (percentage, ndays, pf) \<Rightarrow>
                 lock_info\<lparr>is_locked := True, locked_percentage := percentage,
                   lock_duration_days := ndays,
                   unlock_date := Some (at_unlock clock + days ndays), platform := pf\<rparr>
             | None \<Rightarrow> check_external_sources (at_unlock clock) token_address pair_address network)
      in analyze_lock_safety (at_analysis clock) lock_info)"

text \<open>
  \<open>check_liquidity_lock\<close>: the record returned and the cache after the call. Nothing in
  the \<open>try\<close> block raises on strings, so its handler has no counterpart here.
\<close>

definition check_liquidity_lock ::
  "lock_cache \<Rightarrow> lock_clock \<Rightarrow> string \<Rightarrow> string \<Rightarrow> string \<Rightarrow> LiquidityLockInfo \<times> lock_cache" where
  "check_liquidity_lock cache clock token_address pair_address network =
     (let cache_key = lock_cache_key token_address pair_address network;
          cached =
            (case cache cache_key of
               Some (cached_result, timestamp) \<Rightarrow>
                 if at_lookup clock - timestamp < lock_cache_ttl then Some cached_result else None
             | None \<Rightarrow> None)
      in case cached of
           Some cached_result \<Rightarrow> (cached_result, cache)
         | None \<Rightarrow>
             (let lock_info = find_lock clock token_address pair_address network
              in (lock_info, cache(cache_key \<mapsto> (lock_info, at_store clock)))))"

section \<open>Contract verification (raket-2/src/analysis/contract\_verifier.py)\<close>

text \<open>
  The source strings of \<open>verification_source\<close> and \<open>error_message\<close>, several of them
  Russian, as constructors: \<open>SrcNone\<close> is the empty string, \<open>SrcGoPlusNotFound\<close> is
  "GoPlus Security (ne najden)", \<open>SrcGoPlusApiError\<close> is "GoPlus Security (oshibka API)",
  \<open>SrcSolanaNotFound\<close> is "Solana (ne najden)", \<open>SrcChainUnsupported c\<close> is
  "c (ne podderzhivaetsya)".
\<close>

datatype verification_source =
    SrcNone
  | SrcGoPlus
  | SrcGoPlusNotFound
  | SrcGoPlusApiError
  | SrcSolanaRegistry
  | SrcSolanaNotFound
  | SrcTON
  | SrcSonic
  | SrcChainUnsupported string
  | SrcJupiter
  | SrcSolanaRPC

datatype verification_message =
    MsgNone
  | MsgVerificationError string exn     \<comment> \<open>"Oshibka verifikacii addr: exception"\<close>
  | MsgCouldNotVerify                   \<comment> \<open>"Ne udalos' verificirovat'"\<close>

record ContractVerificationResult =
  is_verified :: bool
  is_honeypot :: bool
  buy_tax :: string
  sell_tax :: string
  owner_address :: string
  can_take_back_ownership :: bool
  is_open_source :: bool
  has_mint_function :: bool
  has_blacklist :: bool
  is_proxy :: bool
  verification_source :: verification_source
  error_message :: verification_message
  raw_data :: "any_dict option"

definition ContractVerificationResult_default :: ContractVerificationResult where
  "ContractVerificationResult_default =
     \<lparr> is_verified = False, is_honeypot = False, buy_tax = ''0'', sell_tax = ''0'',
       owner_address = [], can_take_back_ownership = False, is_open_source = False,
       has_mint_function = False, has_blacklist = False, is_proxy = False,
       verification_source = SrcNone, error_message = MsgNone, raw_data = None \<rparr>"

subsection \<open>Configuration and the outside world\<close>

text \<open>The constants that \<open>config.py\<close> reads from the environment, with their defaults.\<close>

record verifier_config =
  GOPLUS_BATCH_SIZE :: int
  GOPLUS_RATE_LIMIT :: int
  ETHERSCAN_RATE_LIMIT :: int
  BSCSCAN_RATE_LIMIT :: int

definition default_config :: verifier_config where
  "default_config =
     \<lparr> GOPLUS_BATCH_SIZE = 25, GOPLUS_RATE_LIMIT = 30, ETHERSCAN_RATE_LIMIT = 12,
       BSCSCAN_RATE_LIMIT = 12 \<rparr>"

text \<open>
  The decoded bodies. GoPlus: the top-level \<open>code\<close> and \<open>result\<close>, the latter a
  dictionary from lower-case address to the token's fields, \<open>None\<close> when the key is
  missing. Explorers: \<open>status\<close> and the list \<open>result\<close>. Solana RPC: \<open>result\<close>.
  A body of another shape makes the code that reads it raise, which is the outcome
  \<open>Responds s (Inl e)\<close>.
\<close>

record goplus_payload =
  payload_code :: "int option"
  payload_result :: "(string \<times> any_dict) list option"

record explorer_payload =
  explorer_status :: "string option"
  explorer_result :: "any_dict list"

record rpc_payload =
  rpc_result :: "any_dict option"

text \<open>
  The outside world of one verifier: what each request is answered with. The GoPlus
  request is identified by the chain id, the addresses sent and the position of the
  batch among the batches of its chain; the others by their arguments.
\<close>

record world =
  goplus_token_security :: "int \<Rightarrow> string list \<Rightarrow> nat \<Rightarrow> goplus_payload http_outcome"
  etherscan_getsourcecode :: "string \<Rightarrow> explorer_payload http_outcome"
  bscscan_getsourcecode :: "string \<Rightarrow> explorer_payload http_outcome"
  jupiter_strict :: "string \<Rightarrow> any_dict list http_outcome"
  solana_getAccountInfo :: "string \<Rightarrow> string \<Rightarrow> rpc_payload http_outcome"

definition chain_id_mapping :: "(string \<times> int option) list" where
  "chain_id_mapping =
     [(''ethereum'', Some 1), (''bsc'', Some 56), (''polygon'', Some 137),
      (''arbitrum'', Some 42161), (''avalanche'', Some 43114), (''fantom'', Some 250),
      (''optimism'', Some 10), (''base'', Some 8453), (''linea'', Some 59144),
      (''cronos'', Some 25), (''solana'', None), (''ton'', None), (''sonic'', None)]"

text \<open>\<open>self.chain_id_mapping.get(chain)\<close>: \<open>None\<close> for a missing key and for a stored \<open>None\<close>.\<close>

definition chain_id_of :: "string \<Rightarrow> int option" where
  "chain_id_of chain = dict_get chain_id_mapping chain None"

subsection \<open>Reading one source\<close>

text \<open>\<open>x or y\<close> on strings.\<close>

definition str_or :: "string \<Rightarrow> string \<Rightarrow> string" where
  "str_or x y = (if x \<noteq> [] then x else y)"

definition flag :: "any_dict \<Rightarrow> string \<Rightarrow> bool" where
  "flag token_info k = (dict_get token_info k ''0'' = ''1'')"

text \<open>The fields that both GoPlus readers copy from \<open>token_info\<close>.\<close>

definition goplus_fields :: "any_dict \<Rightarrow> ContractVerificationResult" where
  "goplus_fields token_info =
     ContractVerificationResult_default
       \<lparr> is_honeypot := flag token_info ''is_honeypot'',
         is_verified := flag token_info ''is_open_source'',
         buy_tax := str_or (dict_get token_info ''buy_tax'' ''0'') ''0'',
         sell_tax := str_or (dict_get token_info ''sell_tax'' ''0'') ''0'',
         owner_address := str_or (dict_get token_info ''creator_address'' [])
                            (dict_get token_info ''owner_address'' []),
         can_take_back_ownership := flag token_info ''can_take_back_ownership'',
         has_mint_function := flag token_info ''is_mintable'',
         has_blacklist := flag token_info ''is_blacklisted'',
         is_proxy := flag token_info ''is_proxy'',
         raw_data := Some token_info \<rparr>"

text \<open>\<open>data.get('code') == 1 and 'result' in data and data['result']\<close>.\<close>

definition goplus_success :: "goplus_payload \<Rightarrow> (string \<times> any_dict) list option" where
  "goplus_success data =
     (if payload_code data = Some 1
      then (case payload_result data of
              Some r \<Rightarrow> if r \<noteq> [] then Some r else None
            | None \<Rightarrow> None)
      else None)"

text \<open>
  A request inside \<open>try ... except Exception\<close> whose handler, and whose path for a
  status other than 200, give the value \<open>dflt\<close>.
\<close>

definition guarded_request :: "'a http_outcome \<Rightarrow> 'b \<Rightarrow> ('a \<Rightarrow> 'b) \<Rightarrow> exn + 'b" where
  "guarded_request outcome dflt on_body =
     (case outcome of
        Raises e \<Rightarrow> if is_Exception e then Inr dflt else Inl e
      | Responds st body \<Rightarrow>
          if st = 200 then
            (case body of
               Inl e \<Rightarrow> if is_Exception e then Inr dflt else Inl e
             | Inr data \<Rightarrow> Inr (on_body data))
          else Inr dflt)"

definition check_goplus_security ::
  "world \<Rightarrow> string \<Rightarrow> string \<Rightarrow> exn + ContractVerificationResult option" where
  "check_goplus_security w contract_address chain =
     (case chain_id_of chain of
        None \<Rightarrow> Inr None
      | Some chain_id \<Rightarrow>
          guarded_request (goplus_token_security w chain_id [contract_address] 0) None
            (\<lambda>data. case goplus_success data of
                       Some r \<Rightarrow> map_option goplus_fields (map_of r (lower contract_address))
                     | None \<Rightarrow> None))"

definition explorer_fields :: "explorer_payload \<Rightarrow> ContractVerificationResult option" where
  "explorer_fields data =
     (if explorer_status data = Some ''1'' \<and> explorer_result data \<noteq> [] then
        (let contract_info = hd (explorer_result data)
         in Some (ContractVerificationResult_default
              \<lparr> is_verified := (strip (dict_get contract_info ''SourceCode'' []) \<noteq> []),
                owner_address := dict_get contract_info ''ContractCreator'' [],
                raw_data := Some contract_info \<rparr>))
      else None)"

definition check_etherscan_public :: "world \<Rightarrow> string \<Rightarrow> exn + ContractVerificationResult option" where
  "check_etherscan_public w contract_address =
     guarded_request (etherscan_getsourcecode w contract_address) None explorer_fields"

definition check_bscscan_public :: "world \<Rightarrow> string \<Rightarrow> exn + ContractVerificationResult option" where
  "check_bscscan_public w contract_address =
     guarded_request (bscscan_getsourcecode w contract_address) None explorer_fields"

definition check_fallback_sources ::
  "world \<Rightarrow> string \<Rightarrow> string \<Rightarrow> exn + ContractVerificationResult option" where
  "check_fallback_sources w contract_address chain =
     (if chain = ''ethereum'' then check_etherscan_public w contract_address
      else if chain = ''bsc'' then check_bscscan_public w contract_address
      else Inr None)"

definition rpc_endpoints :: "string list" where
  "rpc_endpoints =
     [''https://api.mainnet-beta.solana.com'', ''https://solana-api.projectserum.com'',
      ''https://rpc.ankr.com/solana'']"

definition rpc_fields :: "rpc_payload \<Rightarrow> ContractVerificationResult option" where
  "rpc_fields data =
     (case rpc_result data of
        Some r \<Rightarrow>
          if r \<noteq> [] then
            Some (ContractVerificationResult_default\<lparr>is_verified := True, raw_data := Some r\<rparr>)
          else None
      | None \<Rightarrow> None)"

text \<open>The loop of \<open>_check_solana_contract\<close> over the endpoints.\<close>

fun solana_endpoint_loop ::
  "world \<Rightarrow> string \<Rightarrow> string list \<Rightarrow> exn + ContractVerificationResult option" where
  "solana_endpoint_loop w contract_address [] = Inr None"
| "solana_endpoint_loop w contract_address (endpoint # rest) =
     (case guarded_request (solana_getAccountInfo w endpoint contract_address) None rpc_fields of
        Inl e \<Rightarrow> Inl e
      | Inr (Some r) \<Rightarrow> Inr (Some r)
      | Inr None \<Rightarrow> solana_endpoint_loop w contract_address rest)"

definition check_solana_contract :: "world \<Rightarrow> string \<Rightarrow> exn + ContractVerificationResult option" where
  "check_solana_contract w contract_address = solana_endpoint_loop w contract_address rpc_endpoints"

text \<open>The search of \<open>_check_solana_token_basic\<close> through the Jupiter list.\<close>

definition jupiter_fields :: "string \<Rightarrow> any_dict list \<Rightarrow> ContractVerificationResult option" where
  "jupiter_fields token_address data =
     (case find (\<lambda>token. map_of token ''address'' = Some token_address) data of
        Some token \<Rightarrow>
          Some (ContractVerificationResult_default
                  \<lparr>is_verified := True, verification_source := SrcJupiter, raw_data := Some token\<rparr>)
      | None \<Rightarrow> None)"

definition check_solana_token_basic ::
  "world \<Rightarrow> string \<Rightarrow> exn + ContractVerificationResult option" where
  "check_solana_token_basic w token_address =
     (case guarded_request (jupiter_strict w token_address) None (jupiter_fields token_address) of
        Inl e \<Rightarrow> Inl e
      | Inr (Some r) \<Rightarrow> Inr (Some r)
      | Inr None \<Rightarrow> check_solana_contract w token_address)"

subsection \<open>Batches\<close>

type_synonym results = "string \<rightharpoonup> ContractVerificationResult"

text \<open>The loop of \<open>_process_batch_goplus\<close> over the addresses of a successful answer.\<close>

definition goplus_entry :: "(string \<times> any_dict) list \<Rightarrow> string \<Rightarrow> ContractVerificationResult" where
  "goplus_entry goplus_result address =
     (case map_of goplus_result (lower address) of
        Some token_info \<Rightarrow> (goplus_fields token_info)\<lparr>verification_source := SrcGoPlus\<rparr>
      | None \<Rightarrow> ContractVerificationResult_default\<lparr>verification_source := SrcGoPlusNotFound\<rparr>)"

fun goplus_found_loop :: "(string \<times> any_dict) list \<Rightarrow> string list \<Rightarrow> results \<Rightarrow> results" where
  "goplus_found_loop goplus_result [] results = results"
| "goplus_found_loop goplus_result (address # rest) results =
     goplus_found_loop goplus_result rest (results(address \<mapsto> goplus_entry goplus_result address))"

text \<open>The loop of its branch for an unsuccessful answer.\<close>

fun goplus_error_loop :: "string list \<Rightarrow> results \<Rightarrow> results" where
  "goplus_error_loop [] results = results"
| "goplus_error_loop (address # rest) results =
     goplus_error_loop rest
       (results(address \<mapsto> ContractVerificationResult_default\<lparr>verification_source := SrcGoPlusApiError\<rparr>))"

text \<open>One address of \<open>_process_batch_fallback\<close>.\<close>

definition fallback_entry :: "world \<Rightarrow> string \<Rightarrow> string \<Rightarrow> exn + ContractVerificationResult" where
  "fallback_entry w address chain =
     (let result = ContractVerificationResult_default
      in if chain = ''solana'' then
           bind_exn (check_solana_token_basic w address) (\<lambda>solana_result.
             case solana_result of
               Some r \<Rightarrow> Inr (r\<lparr>verification_source := SrcSolanaRegistry\<rparr>)
             | None \<Rightarrow> Inr (result\<lparr>verification_source := SrcSolanaNotFound\<rparr>))
         else if chain = ''ton'' then
           Inr (result\<lparr>is_verified := True, verification_source := SrcTON\<rparr>)
         else if chain = ''sonic'' then
           Inr (result\<lparr>is_verified := True, verification_source := SrcSonic\<rparr>)
         else
           bind_exn (check_fallback_sources w address chain) (\<lambda>fallback_result.
             case fallback_result of
               Some r \<Rightarrow> Inr r
             | None \<Rightarrow> Inr (result\<lparr>verification_source := SrcChainUnsupported chain\<rparr>)))"

fun fallback_loop :: "world \<Rightarrow> string \<Rightarrow> string list \<Rightarrow> results \<Rightarrow> exn + results" where
  "fallback_loop w chain [] results = Inr results"
| "fallback_loop w chain (address # rest) results =
     bind_exn (fallback_entry w address chain) (\<lambda>result.
       fallback_loop w chain rest (results(address \<mapsto> result)))"

definition process_batch_fallback :: "world \<Rightarrow> string list \<Rightarrow> string \<Rightarrow> exn + results" where
  "process_batch_fallback w addresses chain = fallback_loop w chain addresses Map.empty"

text \<open>
  \<open>_process_batch_goplus\<close> for the batch at position \<open>i\<close> of its chain. The semaphore,
  the rate limiter and the cache writes leave the dictionary returned as it is and are
  not threaded through here; the limiter and the cache follow below.
\<close>

definition process_batch_goplus :: "world \<Rightarrow> string list \<Rightarrow> string \<Rightarrow> nat \<Rightarrow> exn + results" where
  "process_batch_goplus w addresses chain i =
     (case chain_id_of chain of
        None \<Rightarrow> process_batch_fallback w addresses chain
      | Some chain_id \<Rightarrow>
          guarded_request (goplus_token_security w chain_id addresses i) Map.empty
            (\<lambda>data. case goplus_success data of
                       Some goplus_result \<Rightarrow> goplus_found_loop goplus_result addresses Map.empty
                     | None \<Rightarrow> goplus_error_loop addresses Map.empty))"

text \<open>
  \<open>_process_batch_with_progress\<close>, as a function of what awaiting
  \<open>_process_batch_goplus\<close> gives; the progress bar is display only.
\<close>

definition with_progress :: "exn + results \<Rightarrow> exn + results" where
  "with_progress awaited = except_Exception awaited (\<lambda>e. Inr Map.empty)"

definition process_batch_with_progress :: "world \<Rightarrow> string list \<Rightarrow> string \<Rightarrow> nat \<Rightarrow> exn + results" where
  "process_batch_with_progress w addresses chain i =
     with_progress (process_batch_goplus w addresses chain i)"

text \<open>Grouping by chain, in the order in which the chains first occur.\<close>

fun group_by_chain ::
  "(string \<times> string) list \<Rightarrow> (string \<times> string list) list \<Rightarrow> (string \<times> string list) list" where
  "group_by_chain [] contracts_by_chain = contracts_by_chain"
| "group_by_chain ((contract_address, chain) # rest) contracts_by_chain =
     group_by_chain rest
       (case map_of contracts_by_chain chain of
          None \<Rightarrow> contracts_by_chain @ [(chain, [contract_address])]
        | Some addresses \<Rightarrow>
            map (\<lambda>(c, a). if c = chain then (c, a @ [contract_address]) else (c, a))
              contracts_by_chain)"

text \<open>
  \<open>[addresses[i:i + n] for i in range(0, len(addresses), n)]\<close>: a step of 0 makes
  \<open>range\<close> raise, a negative step gives no slice at all.
\<close>

fun chunks :: "nat \<Rightarrow> 'a list \<Rightarrow> 'a list list" where
  "chunks n [] = []"
| "chunks n (x # xs) =
     (if n = 0 then [] else take n (x # xs) # chunks n (drop n (x # xs)))"

definition batches_of :: "int \<Rightarrow> string list \<Rightarrow> py_error + string list list" where
  "batches_of n addresses =
     (if n = 0 then Inl (ValueError ''range() arg 3 must not be zero'')
      else if n < 0 then Inr []
      else Inr (chunks (nat n) addresses))"

text \<open>
  \<open>asyncio.gather(*tasks, return_exceptions=True)\<close> followed by the loop that merges
  the results that are dictionaries: an exception among the results is skipped.
\<close>

fun merge_batch_results :: "(exn + results) list \<Rightarrow> results \<Rightarrow> results" where
  "merge_batch_results [] results = results"
| "merge_batch_results (batch_result # rest) results =
     merge_batch_results rest
       (case batch_result of Inr d \<Rightarrow> results ++ d | Inl e \<Rightarrow> results)"

definition gather_batches :: "world \<Rightarrow> string \<Rightarrow> string list list \<Rightarrow> (exn + results) list" where
  "gather_batches w chain batches =
     map (\<lambda>(i, batch). process_batch_with_progress w batch chain i) (enumerate 0 batches)"

text \<open>The first loop over the chains, which counts the batches for the progress bar.\<close>

fun count_batches :: "int \<Rightarrow> (string \<times> string list) list \<Rightarrow> nat \<Rightarrow> py_error + nat" where
  "count_batches n [] total_batches = Inr total_batches"
| "count_batches n ((chain, addresses) # rest) total_batches =
     bind_err (batches_of n addresses) (\<lambda>batches.
       count_batches n rest (total_batches + length batches))"

text \<open>The second loop over the chains.\<close>

fun process_chains ::
  "verifier_config \<Rightarrow> world \<Rightarrow> (string \<times> string list) list \<Rightarrow> results \<Rightarrow> py_error + results" where
  "process_chains config w [] results = Inr results"
| "process_chains config w ((chain, addresses) # rest) results =
     bind_err (batches_of (GOPLUS_BATCH_SIZE config) addresses) (\<lambda>batches.
       process_chains config w rest
         (merge_batch_results (gather_batches w chain batches) results))"

definition verify_contracts_batch ::
  "verifier_config \<Rightarrow> world \<Rightarrow> (string \<times> string) list \<Rightarrow> py_error + results" where
  "verify_contracts_batch config w contracts =
     (if contracts = [] then Inr Map.empty
      else
        let contracts_by_chain = group_by_chain contracts []
        in bind_err (count_batches (GOPLUS_BATCH_SIZE config) contracts_by_chain 0)
             (\<lambda>total_batches. process_chains config w contracts_by_chain Map.empty))"

subsection \<open>The single-contract path and its cache\<close>

text \<open>
  \<open>self.cache\<close> of \<open>ContractVerifier\<close> maps the key to the pair
  \<open>(timestamp, result)\<close>; \<open>self.cache_ttl\<close> is 3600.
\<close>

type_synonym verifier_cache = "string \<rightharpoonup> (time \<times> ContractVerificationResult)"

definition cache_ttl :: real where
  "cache_ttl = 3600"

definition cache_key_of :: "string \<Rightarrow> string \<Rightarrow> string" where
  "cache_key_of chain contract_address = chain @ ''_'' @ lower contract_address"

text \<open>
  The three numbered steps of the \<open>try\<close> block of \<open>verify_contract_multi_source\<close>.
  The value is the exception that left the block, if any, together with \<open>result\<close> as
  it stood at that moment.
\<close>

definition step_goplus ::
  "world \<Rightarrow> string \<Rightarrow> string \<Rightarrow> exn + ContractVerificationResult" where
  "step_goplus w contract_address chain =
     bind_exn (check_goplus_security w contract_address chain) (\<lambda>goplus_result.
       case goplus_result of
         Some r \<Rightarrow> Inr (r\<lparr>verification_source := SrcGoPlus\<rparr>)
       | None \<Rightarrow> Inr ContractVerificationResult_default)"

definition step_fallback ::
  "world \<Rightarrow> string \<Rightarrow> string \<Rightarrow> ContractVerificationResult \<Rightarrow> exn + ContractVerificationResult" where
  "step_fallback w contract_address chain result =
     (if \<not> is_verified result \<or> chain \<in> set [''ethereum'', ''bsc''] then
        bind_exn (check_fallback_sources w contract_address chain) (\<lambda>fallback_result.
          case fallback_result of
            Some f \<Rightarrow>
              (let result = result\<lparr>is_verified := is_verified result \<or> is_verified f\<rparr>
               in if verification_source result = SrcNone
                  then Inr (result\<lparr>verification_source := verification_source f\<rparr>)
                  else Inr result)
          | None \<Rightarrow> Inr result)
      else Inr result)"

definition step_solana ::
  "world \<Rightarrow> string \<Rightarrow> string \<Rightarrow> ContractVerificationResult \<Rightarrow> exn + ContractVerificationResult" where
  "step_solana w contract_address chain result =
     (if chain = ''solana'' then
        bind_exn (check_solana_contract w contract_address) (\<lambda>solana_result.
          case solana_result of
            Some s \<Rightarrow> Inr (result\<lparr>is_verified := is_verified s, verification_source := SrcSolanaRPC\<rparr>)
          | None \<Rightarrow> Inr result)
      else Inr result)"

definition try_sources ::
  "world \<Rightarrow> string \<Rightarrow> string \<Rightarrow> exn option \<times> ContractVerificationResult" where
  "try_sources w contract_address chain =
     (case step_goplus w contract_address chain of
        Inl e \<Rightarrow> (Some e, ContractVerificationResult_default)
      | Inr result \<Rightarrow>
          (case step_fallback w contract_address chain result of
             Inl e \<Rightarrow> (Some e, result)
           | Inr result \<Rightarrow>
               (case step_solana w contract_address chain result of
                  Inl e \<Rightarrow> (Some e, result)
                | Inr result \<Rightarrow> (None, result))))"

text \<open>
  \<open>verify_contract_multi_source\<close>, with \<open>now\<close> the reading of \<open>time.time()\<close> at the
  cache check and \<open>stored_at\<close> its reading where the result is stored. The value is the
  result returned and the cache after the call, or the exception that escapes.
\<close>

definition verify_contract_multi_source ::
  "world \<Rightarrow> verifier_cache \<Rightarrow> time \<Rightarrow> time \<Rightarrow> string \<Rightarrow> string \<Rightarrow>
   exn + (ContractVerificationResult \<times> verifier_cache)" where
  "verify_contract_multi_source w cache now stored_at contract_address chain =
     (let cache_key = cache_key_of chain contract_address;
          cached =
            (case cache cache_key of
               Some (cached_time, cached_result) \<Rightarrow>
                 if now - cached_time < cache_ttl then Some cached_result else None
             | None \<Rightarrow> None)
      in case cached of
           Some cached_result \<Rightarrow> Inr (cached_result, cache)
         | None \<Rightarrow>
             (case try_sources w contract_address chain of
                (None, result) \<Rightarrow> Inr (result, cache(cache_key \<mapsto> (stored_at, result)))
              | (Some e, result) \<Rightarrow>
                  if is_Exception e then
                    (let result = result\<lparr>error_message := MsgVerificationError contract_address e\<rparr>
                     in Inr (result, cache(cache_key \<mapsto> (stored_at, result))))
                  else Inl e))"

subsection \<open>The rate limiter\<close>

datatype api_type = goplus | etherscan | bscscan | rpc

text \<open>
  The limiter's attributes, and the simulated clock: \<open>time.time()\<close> reads \<open>clock\<close> and
  \<open>await asyncio.sleep(d)\<close> advances it by \<open>d\<close>. The dictionaries have the four API
  names as keys, except \<open>last_request_time\<close>, which starts empty.
\<close>

record limiter =
  request_delays :: "api_type \<Rightarrow> real"
  last_request_time :: "api_type \<Rightarrow> time option"
  request_counters :: "api_type \<Rightarrow> int"
  counter_reset_time :: time
  clock :: time

text \<open>
  The limiter as \<open>__init__\<close> sets it up at clock reading \<open>t\<close>. A rate limit of 0 in the
  configuration makes \<open>60.0 / limit\<close> raise there, so a limiter exists for non-zero
  limits only.
\<close>

definition limiter_init :: "verifier_config \<Rightarrow> time \<Rightarrow> limiter" where
  "limiter_init config t =
     \<lparr> request_delays =
         (\<lambda>a. case a of
                 goplus \<Rightarrow> 60 / real_of_int (GOPLUS_RATE_LIMIT config)
               | etherscan \<Rightarrow> 60 / real_of_int (ETHERSCAN_RATE_LIMIT config)
               | bscscan \<Rightarrow> 60 / real_of_int (BSCSCAN_RATE_LIMIT config)
               | rpc \<Rightarrow> 1 / 10),
       last_request_time = (\<lambda>a. None),
       request_counters = (\<lambda>a. 0),
       counter_reset_time = t,
       clock = t \<rparr>"

definition sleep :: "real \<Rightarrow> limiter \<Rightarrow> limiter" where
  "sleep d s = s\<lparr>clock := clock s + d\<rparr>"

text \<open>\<open>_respect_rate_limit\<close> with one caller at a time.\<close>

definition respect_rate_limit :: "verifier_config \<Rightarrow> api_type \<Rightarrow> limiter \<Rightarrow> limiter" where
  "respect_rate_limit config api s =
     (let current_time = clock s;
          s = (if current_time - counter_reset_time s > 60
               then s\<lparr>request_counters := (\<lambda>k. 0), counter_reset_time := current_time\<rparr>
               else s);
          s = (if api = goplus \<and> request_counters s api \<ge> GOPLUS_RATE_LIMIT config then
                 (let wait_time = 60 - (current_time - counter_reset_time s)
                  in if wait_time > 0 then
                       (let s = sleep wait_time s;
                            s = s\<lparr>request_counters := (request_counters s)(api := 0)\<rparr>
                        in s\<lparr>counter_reset_time := clock s\<rparr>)
                     else s)
               else s);
          s = (case last_request_time s api of
                 Some last_time \<Rightarrow>
                   (let delay_needed = request_delays s api;
                        time_since_last = current_time - last_time
                    in if time_since_last < delay_needed
                       then sleep (delay_needed - time_since_last) s
                       else s)
               | None \<Rightarrow> s);
          s = s\<lparr>last_request_time := (last_request_time s)(api \<mapsto> current_time)\<rparr>
      in s\<lparr>request_counters := (request_counters s)(api := request_counters s api + 1)\<rparr>)"

text \<open>
  A caller that makes its requests one after the other: before each request it lets
  \<open>idle\<close> seconds pass, calls the limiter, and dispatches the request when the limiter
  returns. The log holds the API and the dispatch time of every request.
\<close>

fun serve_requests ::
  "verifier_config \<Rightarrow> (api_type \<times> real) list \<Rightarrow> limiter \<Rightarrow> (api_type \<times> time) list" where
  "serve_requests config [] s = []"
| "serve_requests config ((api, idle) # rest) s =
     (let s = respect_rate_limit config api (sleep idle s)
      in (api, clock s) # serve_requests config rest s)"

text \<open>The number of requests to \<open>api\<close> dispatched in the window from \<open>t\<close> to \<open>t + 60\<close>.\<close>

definition calls_in_window :: "(api_type \<times> time) list \<Rightarrow> api_type \<Rightarrow> time \<Rightarrow> nat" where
  "calls_in_window dispatched api t =
     length (filter (\<lambda>(a, d). a = api \<and> t \<le> d \<and> d < t + 60) dispatched)"

definition rate_limit_of :: "verifier_config \<Rightarrow> api_type \<Rightarrow> int option" where
  "rate_limit_of config api =
     (case api of
        goplus \<Rightarrow> Some (GOPLUS_RATE_LIMIT config)
      | etherscan \<Rightarrow> Some (ETHERSCAN_RATE_LIMIT config)
      | bscscan \<Rightarrow> Some (BSCSCAN_RATE_LIMIT config)
      | rpc \<Rightarrow> None)"

section \<open>Requests with retries (raket-2/src/api/token\_scanner.py)\<close>

datatype json =
    JNull
  | JBool bool
  | JNum real
  | JStr string
  | JList "json list"
  | JDict "(string \<times> json) list"

text \<open>
  The attributes of \<open>TokenScanner\<close> that \<open>_make_async_request\<close> reads and writes;
  \<open>adaptive_delay\<close> is \<open>None\<close> until \<open>_adaptive_delay\<close> is first assigned.
\<close>

record scanner =
  max_retries :: int
  adaptive_delay :: "real option"
  request_count :: int

text \<open>\<open>getattr(self, '_adaptive_delay', 2.0)\<close>.\<close>

definition current_delay :: "scanner \<Rightarrow> real" where
  "current_delay s = (case adaptive_delay s of None \<Rightarrow> 2 | Some d \<Rightarrow> d)"

datatype 'a flow = Return 'a | Continue | Propagate exn

text \<open>
  The two handlers of the loop body (\<open>except aiohttp.ClientError\<close> and
  \<open>except Exception\<close>) do the same: on the last attempt they return \<open>{}\<close>, otherwise
  they sleep and the loop goes on. Any other exception leaves the function.
\<close>

definition handle_exception :: "scanner \<Rightarrow> nat \<Rightarrow> exn \<Rightarrow> json flow" where
  "handle_exception s attempt e =
     (if is_ClientError e then
        (if int attempt = max_retries s - 1 then Return (JDict []) else Continue)
      else if is_Exception e then
        (if int attempt = max_retries s - 1 then Return (JDict []) else Continue)
      else Propagate e)"

text \<open>
  One pass through the loop body, given what the request of this attempt does.
  \<open>raise_for_status\<close> raises a \<open>ClientResponseError\<close> for a status of 400 or more.
\<close>

definition attempt_body :: "scanner \<Rightarrow> nat \<Rightarrow> json http_outcome \<Rightarrow> json flow \<times> scanner" where
  "attempt_body s attempt outcome =
     (case outcome of
        Raises e \<Rightarrow> (handle_exception s attempt e, s)
      | Responds st body \<Rightarrow>
          (let s = s\<lparr>request_count := request_count s + 1\<rparr>
           in if st = 429 then
                (let s = s\<lparr>adaptive_delay := Some (min (current_delay s * 2) 15)\<rparr>
                 in if int attempt < max_retries s - 1 then (Continue, s)
                    else (Return (JDict []), s))
              else
                (let s = (if st = 200
                          then s\<lparr>adaptive_delay := Some (max (current_delay s * (95 / 100)) 2)\<rparr>
                          else s)
                 in if st \<ge> 400 then (handle_exception s attempt ClientError, s)
                    else (case body of
                            Inl e \<Rightarrow> (handle_exception s attempt e, s)
                          | Inr data \<Rightarrow> (Return data, s)))))"

text \<open>\<open>for attempt in range(self.max_retries)\<close>, and \<open>return {}\<close> after the loop.\<close>

fun attempt_loop ::
  "(nat \<Rightarrow> json http_outcome) \<Rightarrow> nat list \<Rightarrow> scanner \<Rightarrow> exn + (json \<times> scanner)" where
  "attempt_loop request [] s = Inr (JDict [], s)"
| "attempt_loop request (attempt # rest) s =
     (case attempt_body s attempt (request attempt) of
        (Return data, s') \<Rightarrow> Inr (data, s')
      | (Continue, s') \<Rightarrow> attempt_loop request rest s'
      | (Propagate e, s') \<Rightarrow> Inl e)"

text \<open>
  \<open>_make_async_request\<close>: the value returned and the scanner afterwards, or the exception
  that escapes. The sleeps pass time only; the user agent is drawn from a fixed list.
\<close>

definition make_async_request ::
  "(nat \<Rightarrow> json http_outcome) \<Rightarrow> scanner \<Rightarrow> exn + (json \<times> scanner)" where
  "make_async_request request s = attempt_loop request [0 ..< nat (max_retries s)] s"

text \<open>An attempt that yields no data: it raises, is rate limited, is refused, or is unreadable.\<close>

fun failed_attempt :: "json http_outcome \<Rightarrow> bool" where
  "failed_attempt (Raises e) = True"
| "failed_attempt (Responds st (Inl e)) = True"
| "failed_attempt (Responds st (Inr data)) = (st = 429 \<or> st \<ge> 400)"

text \<open>The exception that an attempt raises or that reading its body raises, if any.\<close>

fun raised_by :: "'a http_outcome \<Rightarrow> exn option" where
  "raised_by (Raises e) = Some e"
| "raised_by (Responds st (Inl e)) = Some e"
| "raised_by (Responds st (Inr data)) = None"

section \<open>Weighted risk assessment (seturity/models.py, seturity/risk\_calculator.py)\<close>

datatype RiskLevel = LOW | MEDIUM | HIGH | CRITICAL

datatype OwnerType = EOA | MULTISIG | TIMELOCK | RENOUNCED | UNKNOWN

datatype WhaleConcentration = WhaleLOW | WhaleMEDIUM | WhaleHIGH

fun OwnerType_value :: "OwnerType \<Rightarrow> string" where
  "OwnerType_value EOA = ''EOA''"
| "OwnerType_value MULTISIG = ''MULTISIG''"
| "OwnerType_value TIMELOCK = ''TIMELOCK''"
| "OwnerType_value RENOUNCED = ''RENOUNCED''"
| "OwnerType_value UNKNOWN = ''UNKNOWN''"

record ContractAnalysis =
  verified :: bool
  audit_results :: "(string \<times> int) list"
  dangerous_functions :: "any_dict list"
  honeypot_probability :: real
  source_code :: "string option"
  bytecode :: "string option"
  abi :: "any_dict list option"

record OwnershipAnalysis =
  owner :: string
  owner_type :: OwnerType
  renounced :: bool
  admin_functions :: "any_dict list"
  ownership_risk_score :: real

record DistributionAnalysis =
  top_10_holders_percent :: real
  gini_coefficient :: real
  whale_concentration :: WhaleConcentration
  total_holders :: int
  top_holders :: "any_dict list"
  distribution_liquidity_locked :: bool
  distribution_liquidity_lock_period :: "int option"

record TradingAnalysis =
  unique_buyers_24h :: int
  unique_sellers_24h :: int
  wash_trading_score :: real
  organic_volume_ratio :: real
  avg_hold_time :: real
  trading_volume_24h :: real
  trading_price_change_24h :: real

datatype recommendation =
    RecContractNotVerified | RecContractCodeProblems | RecContractSafe
  | RecNotRenounced | RecSuspiciousOwner | RecOwnerSafe
  | RecLiquidityNotLocked | RecShortLockPeriod | RecLiquidityLocked
  | RecHighConcentration | RecGoodDistribution
  | RecHoneypotLikely | RecNoHoneypotSigns

record RiskAssessment =
  overall_score :: real
  assessment_risk_level :: RiskLevel
  confidence :: real
  breakdown :: "(string \<times> real) list"
  recommendations :: "recommendation list"

record TokenSecurityReport =
  token_address :: string
  token_name :: "string option"
  token_symbol :: "string option"
  chain :: string
  risk_assessment :: RiskAssessment
  contract_analysis :: ContractAnalysis
  ownership :: OwnershipAnalysis
  distribution :: DistributionAnalysis
  trading :: TradingAnalysis
  external_checks :: any_dict
  analysis_timestamp :: time
  analysis_duration :: real

definition weights :: "(string \<times> real) list" where
  "weights =
     [(''contract_verification'', 15 / 100),
      (''ownership_status'', 20 / 100),
      (''liquidity_lock'', 25 / 100),
      (''holder_distribution'', 15 / 100),
      (''trading_patterns'', 10 / 100),
      (''code_audit'', 10 / 100),
      (''community_reports'', 5 / 100)]"

definition calculate_verification_score :: "TokenSecurityReport \<Rightarrow> py_error + real" where
  "calculate_verification_score token_data =
     (if \<not> verified (contract_analysis token_data) then Inr (8 / 10)
      else
        let ar = audit_results (contract_analysis token_data) in
        bind_err (dict_item ar ''critical'') (\<lambda>critical.
          if critical > 0 then Inr (9 / 10)
          else bind_err (dict_item ar ''high'') (\<lambda>high.
            if high > 0 then Inr (7 / 10)
            else bind_err (dict_item ar ''medium'') (\<lambda>medium.
              if medium > 0 then Inr (4 / 10) else Inr (1 / 10)))))"

definition calculate_ownership_score :: "TokenSecurityReport \<Rightarrow> real" where
  "calculate_ownership_score token_data =
     (if renounced (ownership token_data) then 0
      else if OwnerType_value (owner_type (ownership token_data)) = ''TIMELOCK'' then 2 / 10
      else if OwnerType_value (owner_type (ownership token_data)) = ''MULTISIG'' then 4 / 10
      else 9 / 10)"

text \<open>\<open>period and period > n\<close>: \<open>None\<close> and \<open>0\<close> are falsy.\<close>

definition period_over :: "int option \<Rightarrow> int \<Rightarrow> bool" where
  "period_over period n = (case period of None \<Rightarrow> False | Some p \<Rightarrow> p \<noteq> 0 \<and> p > n)"

definition calculate_liquidity_score :: "TokenSecurityReport \<Rightarrow> real" where
  "calculate_liquidity_score token_data =
     (if distribution_liquidity_locked (distribution token_data) then
        (if period_over (distribution_liquidity_lock_period (distribution token_data)) 365 then 1 / 10
         else if period_over (distribution_liquidity_lock_period (distribution token_data)) 180 then 3 / 10
         else 5 / 10)
      else 9 / 10)"

definition calculate_distribution_score :: "TokenSecurityReport \<Rightarrow> real" where
  "calculate_distribution_score token_data =
     (let gini = gini_coefficient (distribution token_data);
          top_10_percent = top_10_holders_percent (distribution token_data)
      in if gini > 8 / 10 \<or> top_10_percent > 80 then 9 / 10
         else if gini > 6 / 10 \<or> top_10_percent > 60 then 7 / 10
         else if gini > 4 / 10 \<or> top_10_percent > 40 then 5 / 10
         else 2 / 10)"

definition calculate_trading_score :: "TokenSecurityReport \<Rightarrow> real" where
  "calculate_trading_score token_data =
     (let wash_score = wash_trading_score (trading token_data);
          organic_ratio = organic_volume_ratio (trading token_data)
      in if wash_score > 7 / 10 \<or> organic_ratio < 3 / 10 then 9 / 10
         else if wash_score > 5 / 10 \<or> organic_ratio < 5 / 10 then 7 / 10
         else if wash_score > 3 / 10 \<or> organic_ratio < 7 / 10 then 5 / 10
         else 2 / 10)"

definition calculate_audit_score :: "TokenSecurityReport \<Rightarrow> real" where
  "calculate_audit_score token_data =
     (let dangerous_funcs = dangerous_functions (contract_analysis token_data);
          honeypot_prob = honeypot_probability (contract_analysis token_data)
      in if honeypot_prob > 8 / 10 then 9 / 10
         else if honeypot_prob > 5 / 10 then 7 / 10
         else if length dangerous_funcs > 5 then 6 / 10
         else if length dangerous_funcs > 2 then 4 / 10
         else 1 / 10)"

definition calculate_community_score :: "TokenSecurityReport \<Rightarrow> real" where
  "calculate_community_score token_data = 3 / 10"

definition get_risk_level :: "real \<Rightarrow> RiskLevel" where
  "get_risk_level score =
     (if score \<ge> 8 / 10 then CRITICAL
      else if score \<ge> 6 / 10 then HIGH
      else if score \<ge> 4 / 10 then MEDIUM
      else LOW)"

text \<open>The loop of \<open>calculate_confidence\<close> over \<open>scores.values()\<close>.\<close>

fun confidence_loop :: "real list \<Rightarrow> real \<Rightarrow> real" where
  "confidence_loop [] conf = conf"
| "confidence_loop (score # rest) conf =
     confidence_loop rest (if score \<ge> 0 then conf + 1 / 10 else conf)"

definition calculate_confidence :: "(string \<times> real) list \<Rightarrow> real" where
  "calculate_confidence scores = min (confidence_loop (map snd scores) (5 / 10)) 1"

definition generate_recommendations ::
  "(string \<times> real) list \<Rightarrow> TokenSecurityReport \<Rightarrow> py_error + recommendation list" where
  "generate_recommendations scores token_data =
     bind_err (dict_item scores ''contract_verification'') (\<lambda>cv.
     bind_err (dict_item scores ''ownership_status'') (\<lambda>os.
     bind_err (dict_item scores ''liquidity_lock'') (\<lambda>ll.
     bind_err (dict_item scores ''holder_distribution'') (\<lambda>hdist.
       Inr ([if cv > 5 / 10
             then (if \<not> verified (contract_analysis token_data)
                   then RecContractNotVerified else RecContractCodeProblems)
             else RecContractSafe,
             if os > 5 / 10
             then (if \<not> renounced (ownership token_data)
                   then RecNotRenounced else RecSuspiciousOwner)
             else RecOwnerSafe,
             if ll > 5 / 10
             then (if \<not> distribution_liquidity_locked (distribution token_data)
                   then RecLiquidityNotLocked else RecShortLockPeriod)
             else RecLiquidityLocked,
             if hdist > 5 / 10 then RecHighConcentration else RecGoodDistribution,
             if honeypot_probability (contract_analysis token_data) > 5 / 10
             then RecHoneypotLikely else RecNoHoneypotSigns])))))"

text \<open>\<open>sum(scores[k] * self.weights[k] for k in scores)\<close>.\<close>

fun weighted_sum :: "(string \<times> real) list \<Rightarrow> real \<Rightarrow> py_error + real" where
  "weighted_sum [] acc = Inr acc"
| "weighted_sum ((k, s) # rest) acc =
     bind_err (dict_item weights k) (\<lambda>w. weighted_sum rest (acc + s * w))"

definition calculate_risk_score :: "TokenSecurityReport \<Rightarrow> py_error + RiskAssessment" where
  "calculate_risk_score token_data =
     bind_err (calculate_verification_score token_data) (\<lambda>verification.
       let scores =
             [(''contract_verification'', verification),
              (''ownership_status'', calculate_ownership_score token_data),
              (''liquidity_lock'', calculate_liquidity_score token_data),
              (''holder_distribution'', calculate_distribution_score token_data),
              (''trading_patterns'', calculate_trading_score token_data),
              (''code_audit'', calculate_audit_score token_data),
              (''community_reports'', calculate_community_score token_data)]
       in bind_err (weighted_sum scores 0) (\<lambda>final_score.
          bind_err (generate_recommendations scores token_data) (\<lambda>recs.
            Inr \<lparr> overall_score = final_score,
                  assessment_risk_level = get_risk_level final_score,
                  confidence = calculate_confidence scores,
                  breakdown = scores,
                  recommendations = recs \<rparr>)))"

text \<open>The defaults of the pydantic models, used to build concrete reports.\<close>

definition ContractAnalysis_default :: ContractAnalysis where
  "ContractAnalysis_default =
     \<lparr> verified = False,
       audit_results = [(''critical'', 0), (''high'', 0), (''medium'', 0), (''low'', 0)],
       dangerous_functions = [], honeypot_probability = 0, source_code = None,
       bytecode = None, abi = None \<rparr>"

definition OwnershipAnalysis_default :: OwnershipAnalysis where
  "OwnershipAnalysis_default =
     \<lparr> owner = ''0x0000000000000000000000000000000000000000'', owner_type = UNKNOWN,
       renounced = False, admin_functions = [], ownership_risk_score = 0 \<rparr>"

definition DistributionAnalysis_default :: DistributionAnalysis where
  "DistributionAnalysis_default =
     \<lparr> top_10_holders_percent = 0, gini_coefficient = 0, whale_concentration = WhaleLOW,
       total_holders = 0, top_holders = [], distribution_liquidity_locked = False,
       distribution_liquidity_lock_period = None \<rparr>"

definition TradingAnalysis_default :: TradingAnalysis where
  "TradingAnalysis_default =
     \<lparr> unique_buyers_24h = 0, unique_sellers_24h = 0, wash_trading_score = 0,
       organic_volume_ratio = 0, avg_hold_time = 0, trading_volume_24h = 0,
       trading_price_change_24h = 0 \<rparr>"

definition RiskAssessment_default :: RiskAssessment where
  "RiskAssessment_default =
     \<lparr> overall_score = 0, assessment_risk_level = LOW, confidence = 0, breakdown = [],
       recommendations = [] \<rparr>"

definition report_of :: "string \<Rightarrow> ContractAnalysis \<Rightarrow> TokenSecurityReport" where
  "report_of addr ca =
     \<lparr> token_address = addr, token_name = None, token_symbol = None, chain = ''ethereum'',
       risk_assessment = RiskAssessment_default, contract_analysis = ca,
       ownership = OwnershipAnalysis_default, distribution = DistributionAnalysis_default,
       trading = TradingAnalysis_default, external_checks = [], analysis_timestamp = 0,
       analysis_duration = 0 \<rparr>"

section \<open>Token risk scoring (src\_analyse-2/src/token\_analyzer.py)\<close>

text \<open>
  The five values that \<open>risk_level\<close> takes: "Nizkij" (low), "Umerennyj" (moderate),
  "Srednij" (medium), "Vysokij" (high) and "Skam" (scam).
\<close>

datatype risk_level = Nizkij | Umerennyj | Srednij | Vysokij | Skam

datatype risk_factor =
    FactorAnomalousGrowth real
  | FactorNewToken real
  | FactorYoungToken real
  | FactorLowLiquidity real
  | FactorSuspiciousVolumeLiquidity real
  | FactorNoWebsiteNoSocials
  | FactorHighSellRatio real
  | FactorLiquidityNotLocked
  | FactorLowLockLevel int
  | FactorMediumLockLevel int
  | FactorLockUncheckedLargeToken
  | FactorLockUnchecked
  | FactorVolumeRatioManipulation
  | FactorVolumeRatioVolatility
  | FactorExtremeGrowth
  | FactorLiquidityBelow100K
  | FactorUnverifiedWithoutLock
  | FactorVerifiedWithoutLock
  | FactorLiquidityBelow50K
  | FactorLiquidityBelow25K
  | FactorHoneypot
  | FactorUnverifiedLargeToken
  | FactorUnverified
  | FactorCanTakeBackOwnership
  | FactorMintFunction
  | FactorBlacklistFunction
  | FactorProxyContract

datatype breakdown_entry = BreakdownVL20 int | BreakdownVL5 int | BreakdownGrowth500 int

text \<open>
  The attributes set in \<open>Token.__init__\<close>, and the three that later stages attach
  (\<open>verification_result\<close>, \<open>liquidity_lock_info\<close>, \<open>liquidity_lock_score\<close>): for these
  \<open>None\<close> stands for an attribute that is missing or holds \<open>None\<close>, which the guards
  \<open>hasattr(self, a) and self.a\<close> and \<open>hasattr(self, a) and self.a is not None\<close> treat alike.
\<close>

record Token =
  address :: string
  name :: string
  symbol :: string
  network :: string
  pair_address :: string
  dex_id :: string
  url :: string
  price_usd :: real
  price_native :: real
  liquidity_usd :: real
  volume_24h :: real
  volume_6h :: real
  volume_1h :: real
  price_change_24h :: real
  price_change_6h :: real
  price_change_1h :: real
  buys_24h :: int
  sells_24h :: int
  fdv :: real
  market_cap :: real
  age_hours :: real
  info :: "(string \<times> string list) list"
  risk_score :: int
  risk_level :: risk_level
  risk_factors :: "risk_factor list"
  score_breakdown :: "breakdown_entry list"
  security_score :: real
  contract_verified :: bool
  ownership_renounced :: bool
  liquidity_locked :: bool
  liquidity_lock_period :: "int option"
  token_honeypot_probability :: real
  verification_result :: "ContractVerificationResult option"
  liquidity_lock_info :: "LiquidityLockInfo option"
  liquidity_lock_score :: "int option"

text \<open>
  The three thresholds that \<open>calculate_risk_score\<close> reads from the configuration, each
  missing (\<open>None\<close>) when a key on its path is absent, in which case the default applies.
\<close>

record analyzer_config =
  price_change_suspicious_min :: "real option"
  liquidity_high_risk :: "real option"
  volume_liquidity_suspicious_min :: "real option"

definition get_default :: "'a option \<Rightarrow> 'a \<Rightarrow> 'a" where
  "get_default v d = (case v of None \<Rightarrow> d | Some x \<Rightarrow> x)"

text \<open>\<open>bool(self.info.get(key, []))\<close>.\<close>

definition info_present :: "Token \<Rightarrow> string \<Rightarrow> bool" where
  "info_present tok key = (get_default (map_of (info tok) key) [] \<noteq> [])"

text \<open>
  The running state of \<open>calculate_risk_score\<close>: the local \<open>score\<close>, the factors
  appended to \<open>self.risk_factors\<close>, and the local \<open>score_breakdown\<close>.
\<close>

record scoring =
  score :: int
  factors :: "risk_factor list"
  breakdown_entries :: "breakdown_entry list"

definition penalty :: "int \<Rightarrow> risk_factor \<Rightarrow> scoring \<Rightarrow> scoring" where
  "penalty n f st = st\<lparr>score := score st + n, factors := factors st @ [f]\<rparr>"

definition penalty_logged :: "int \<Rightarrow> breakdown_entry \<Rightarrow> risk_factor \<Rightarrow> scoring \<Rightarrow> scoring" where
  "penalty_logged n b f st =
     st\<lparr>score := score st + n, breakdown_entries := breakdown_entries st @ [b],
        factors := factors st @ [f]\<rparr>"

definition volume_liquidity_ratio :: "Token \<Rightarrow> real" where
  "volume_liquidity_ratio tok =
     (if liquidity_usd tok > 0 then volume_24h tok / liquidity_usd tok else 0)"

definition step_price_change :: "analyzer_config \<Rightarrow> Token \<Rightarrow> scoring \<Rightarrow> scoring" where
  "step_price_change config tok st =
     (if price_change_24h tok > get_default (price_change_suspicious_min config) 1000
      then penalty 30 (FactorAnomalousGrowth (price_change_24h tok)) st else st)"

definition step_age :: "Token \<Rightarrow> scoring \<Rightarrow> scoring" where
  "step_age tok st =
     (if age_hours tok < 24 then penalty 50 (FactorNewToken (age_hours tok)) st
      else if age_hours tok < 168 then penalty 20 (FactorYoungToken (age_hours tok)) st
      else st)"

definition step_liquidity :: "analyzer_config \<Rightarrow> Token \<Rightarrow> scoring \<Rightarrow> scoring" where
  "step_liquidity config tok st =
     (if liquidity_usd tok < get_default (liquidity_high_risk config) 1000
      then penalty 15 (FactorLowLiquidity (liquidity_usd tok)) st else st)"

definition step_volume_liquidity :: "analyzer_config \<Rightarrow> Token \<Rightarrow> scoring \<Rightarrow> scoring" where
  "step_volume_liquidity config tok st =
     (let vol_liq_ratio = volume_liquidity_ratio tok
      in if vol_liq_ratio > get_default (volume_liquidity_suspicious_min config) 5
         then penalty 25 (FactorSuspiciousVolumeLiquidity vol_liq_ratio) st else st)"

definition step_socials :: "Token \<Rightarrow> scoring \<Rightarrow> scoring" where
  "step_socials tok st =
     (let has_website = info_present tok ''websites'';
          has_socials = info_present tok ''socials''
      in if \<not> has_website \<and> \<not> has_socials then penalty 20 FactorNoWebsiteNoSocials st else st)"

definition step_transactions :: "Token \<Rightarrow> scoring \<Rightarrow> scoring" where
  "step_transactions tok st =
     (let total_txns = buys_24h tok + sells_24h tok
      in if total_txns > 0
         then (let sell_ratio = real_of_int (sells_24h tok) / real_of_int total_txns
               in if sell_ratio > 8 / 10 then penalty 25 (FactorHighSellRatio sell_ratio) st else st)
         else st)"

definition step_lock_score :: "Token \<Rightarrow> scoring \<Rightarrow> scoring" where
  "step_lock_score tok st =
     (case liquidity_lock_score tok of
        Some ls \<Rightarrow>
          (if ls = 0 then penalty 60 FactorLiquidityNotLocked st
           else if ls < 30 then penalty 40 (FactorLowLockLevel ls) st
           else if ls < 60 then penalty 20 (FactorMediumLockLevel ls) st
           else st)
      | None \<Rightarrow>
          (let has_high_liquidity = liquidity_usd tok \<ge> 100000;
               has_mature_age = age_hours tok \<ge> 720
           in if has_high_liquidity \<and> has_mature_age
              then penalty 10 FactorLockUncheckedLargeToken st
              else penalty 20 FactorLockUnchecked st))"

definition lock_percentage_of :: "Token \<Rightarrow> real" where
  "lock_percentage_of tok =
     (case liquidity_lock_info tok of
        None \<Rightarrow> 0
      | Some li \<Rightarrow> if is_locked li then locked_percentage li else 0)"

definition step_volume_ratio :: "Token \<Rightarrow> scoring \<Rightarrow> scoring" where
  "step_volume_ratio tok st =
     (let volume_ratio = volume_liquidity_ratio tok
      in if volume_ratio > 20
         then penalty_logged 25 (BreakdownVL20 25) FactorVolumeRatioManipulation st
         else if volume_ratio > 5
         then penalty_logged 10 (BreakdownVL5 10) FactorVolumeRatioVolatility st
         else st)"

definition step_extreme_growth :: "Token \<Rightarrow> scoring \<Rightarrow> scoring" where
  "step_extreme_growth tok st =
     (if price_change_24h tok > 500
      then penalty_logged 30 (BreakdownGrowth500 30) FactorExtremeGrowth st else st)"

text \<open>The score accumulated before the thresholds are applied.\<close>

definition accumulate_score :: "analyzer_config \<Rightarrow> Token \<Rightarrow> scoring" where
  "accumulate_score config tok =
     (let st = \<lparr>score = 0, factors = risk_factors tok, breakdown_entries = []\<rparr>;
          st = step_price_change config tok st;
          st = step_age tok st;
          st = step_liquidity config tok st;
          st = step_volume_liquidity config tok st;
          st = step_socials tok st;
          st = step_transactions tok st;
          st = step_lock_score tok st;
          st = step_volume_ratio tok st;
          st = step_extreme_growth tok st
      in st)"

text \<open>
  The threshold chain, with the nested checks of its last branch. The result is the
  level assigned and the factors appended.
\<close>

definition is_verified_of :: "Token \<Rightarrow> bool" where
  "is_verified_of tok =
     (case verification_result tok of None \<Rightarrow> False | Some vr \<Rightarrow> is_verified vr)"

definition low_score_level :: "Token \<Rightarrow> risk_level \<times> risk_factor list" where
  "low_score_level tok =
     (let liquidity_lock_percentage = lock_percentage_of tok
      in if liquidity_usd tok < 100000 then (Umerennyj, [FactorLiquidityBelow100K])
         else if liquidity_lock_percentage = 0 then
           (if \<not> is_verified_of tok then (Srednij, [FactorUnverifiedWithoutLock])
            else (Umerennyj, [FactorVerifiedWithoutLock]))
         else if liquidity_lock_percentage \<ge> 30 \<and> liquidity_usd tok \<ge> 100000 then (Nizkij, [])
         else if liquidity_lock_percentage \<ge> 75 then (Nizkij, [])
         else (Umerennyj, []))"

definition threshold_level :: "Token \<Rightarrow> int \<Rightarrow> risk_level \<times> risk_factor list" where
  "threshold_level tok sc =
     (if sc \<ge> 120 then (Skam, [])
      else if sc \<ge> 80 then (Vysokij, [])
      else if sc \<ge> 50 then (Srednij, [])
      else if sc \<ge> 25 then (Umerennyj, [])
      else low_score_level tok)"

text \<open>The two blocks that follow the chain: the checks for "Srednij" and for "Vysokij".\<close>

definition medium_gate :: "Token \<Rightarrow> risk_level \<times> risk_factor list \<Rightarrow> risk_level \<times> risk_factor list" where
  "medium_gate tok lf =
     (if fst lf = Srednij \<and> liquidity_usd tok < 50000
      then (Vysokij, snd lf @ [FactorLiquidityBelow50K]) else lf)"

definition high_gate :: "Token \<Rightarrow> risk_level \<times> risk_factor list \<Rightarrow> risk_level \<times> risk_factor list" where
  "high_gate tok lf =
     (if fst lf = Vysokij \<and> liquidity_usd tok < 25000
      then (Skam, snd lf @ [FactorLiquidityBelow25K]) else lf)"

text \<open>
  \<open>Token.calculate_risk_score\<close>: the token after the call; the value returned is its
  \<open>risk_score\<close>.
\<close>

definition Token_calculate_risk_score :: "analyzer_config \<Rightarrow> Token \<Rightarrow> Token" where
  "Token_calculate_risk_score config tok =
     (let st = accumulate_score config tok;
          lf = high_gate tok (medium_gate tok (threshold_level tok (score st)))
      in tok\<lparr> risk_level := fst lf,
              risk_factors := factors st @ snd lf,
              score_breakdown := breakdown_entries st,
              risk_score := score st \<rparr>)"

text \<open>
  The body of the loop of \<open>TokenAnalyzer.verify_contracts\<close> for one token, given the map
  that \<open>verify_contracts_batch\<close> returned.
\<close>

definition add_risk :: "int \<Rightarrow> risk_factor \<Rightarrow> Token \<Rightarrow> Token" where
  "add_risk n f tok = tok\<lparr>risk_factors := risk_factors tok @ [f], risk_score := risk_score tok + n\<rparr>"

definition verification_level :: "int \<Rightarrow> risk_level" where
  "verification_level sc =
     (if sc \<ge> 80 then Skam else if sc \<ge> 60 then Vysokij else if sc \<ge> 40 then Srednij else Nizkij)"

definition verify_contracts_token ::
  "(string \<rightharpoonup> ContractVerificationResult) \<Rightarrow> Token \<Rightarrow> Token" where
  "verify_contracts_token verification_results token =
     (case verification_results (address token) of
        Some vr \<Rightarrow>
          (let token = token\<lparr>verification_result := Some vr\<rparr>;
               token = (if is_honeypot vr then add_risk 50 FactorHoneypot token else token);
               token =
                 (if \<not> is_verified vr then
                    (let has_high_liquidity = liquidity_usd token \<ge> 100000;
                         has_mature_age = age_hours token \<ge> 720;
                         has_social_presence =
                           info_present token ''websites'' \<or> info_present token ''socials''
                     in if has_high_liquidity \<and> (has_mature_age \<or> has_social_presence)
                        then add_risk 5 FactorUnverifiedLargeToken token
                        else add_risk 15 FactorUnverified token)
                  else token);
               token = (if can_take_back_ownership vr
                        then add_risk 20 FactorCanTakeBackOwnership token else token);
               token = (if has_mint_function vr then add_risk 10 FactorMintFunction token else token);
               token = (if has_blacklist vr then add_risk 15 FactorBlacklistFunction token else token);
               token = (if is_proxy vr then add_risk 10 FactorProxyContract token else token)
           in token\<lparr>risk_level := verification_level (risk_score token)\<rparr>)
      | None \<Rightarrow>
          token\<lparr>verification_result :=
                  Some (ContractVerificationResult_default\<lparr>error_message := MsgCouldNotVerify\<rparr>)\<rparr>)"

text \<open>
  The body of the loop of \<open>TokenAnalyzer.check_liquidity_locks\<close> for one token. The
  argument is \<open>None\<close> when \<open>LiquidityLockChecker\<close> could not be imported, and otherwise
  what \<open>check_liquidity_lock\<close> does for this token: it raises or returns a record.
\<close>

definition truthy_days :: "int \<Rightarrow> int option" where
  "truthy_days d = (if d \<noteq> 0 then Some d else None)"

definition check_liquidity_locks_token ::
  "(string + LiquidityLockInfo) option \<Rightarrow> Token \<Rightarrow> Token" where
  "check_liquidity_locks_token checker token =
     (case checker of
        None \<Rightarrow> token\<lparr>liquidity_lock_info := None, liquidity_lock_score := Some 0\<rparr>
      | Some outcome \<Rightarrow>
          (if pair_address token \<noteq> [] \<and> address token \<noteq> [] \<and> network token \<noteq> [] then
             (case outcome of
                Inr lock_info \<Rightarrow>
                  token\<lparr> liquidity_lock_info := Some lock_info,
                         liquidity_lock_score := Some (get_lock_score lock_info),
                         liquidity_locked := is_locked lock_info,
                         liquidity_lock_period := truthy_days (lock_duration_days lock_info) \<rparr>
              | Inl e \<Rightarrow>
                  token\<lparr> liquidity_lock_info := None, liquidity_lock_score := Some 0,
                         liquidity_locked := False, liquidity_lock_period := None \<rparr>)
           else
             token\<lparr> liquidity_lock_info := None, liquidity_lock_score := Some 0,
                    liquidity_locked := False, liquidity_lock_period := None \<rparr>))"

text \<open>
  \<open>TokenAnalyzer.analyze_all_tokens\<close> for one token: verification, lock check, then the
  risk score. The optional security analysis between them writes the \<open>security_*\<close>
  attributes only and is left out.
\<close>

definition analyze_token ::
  "analyzer_config \<Rightarrow> (string \<rightharpoonup> ContractVerificationResult) \<Rightarrow>
   (string + LiquidityLockInfo) option \<Rightarrow> Token \<Rightarrow> Token" where
  "analyze_token config verification_results checker token =
     Token_calculate_risk_score config
       (check_liquidity_locks_token checker (verify_contracts_token verification_results token))"

text \<open>The order of the levels, from the safest to the worst.\<close>

fun level_rank :: "risk_level \<Rightarrow> nat" where
  "level_rank Nizkij = 0"
| "level_rank Umerennyj = 1"
| "level_rank Srednij = 2"
| "level_rank Vysokij = 3"
| "level_rank Skam = 4"

text \<open>The bucket that the score alone qualifies for, as the specification words it.\<close>

definition score_bucket :: "int \<Rightarrow> risk_level" where
  "score_bucket sc =
     (if sc \<ge> 120 then Skam else if sc \<ge> 80 then Vysokij else if sc \<ge> 50 then Srednij
      else if sc \<ge> 25 then Umerennyj else Nizkij)"

text \<open>A token as \<open>Token.__init__\<close> builds it from an empty record of the discovery feed.\<close>

definition Token_init :: Token where
  "Token_init =
     \<lparr> address = [], name = [], symbol = [], network = [], pair_address = [], dex_id = [],
       url = [], price_usd = 0, price_native = 0, liquidity_usd = 0, volume_24h = 0,
       volume_6h = 0, volume_1h = 0, price_change_24h = 0, price_change_6h = 0,
       price_change_1h = 0, buys_24h = 0, sells_24h = 0, fdv = 0, market_cap = 0,
       age_hours = 0, info = [], risk_score = 0, risk_level = Nizkij, risk_factors = [],
       score_breakdown = [], security_score = 0, contract_verified = False,
       ownership_renounced = False, liquidity_locked = False, liquidity_lock_period = None,
       token_honeypot_probability = 0, verification_result = None,
       liquidity_lock_info = None, liquidity_lock_score = None \<rparr>"

section \<open>Auxiliary notions and concrete inputs\<close>

text \<open>
  The definitions of this section are not part of the program: they name the inputs at
  which the properties below are evaluated, and the conditions and recurrences in which
  the properties are stated.
\<close>

subsection \<open>Concrete tokens used to evaluate the scoring\<close>

definition example_config :: analyzer_config where
  "example_config = \<lparr> price_change_suspicious_min = None, liquidity_high_risk = None,
       volume_liquidity_suspicious_min = None \<rparr>"

definition example_medium_token :: Token where
  "example_medium_token =
     Token_init\<lparr> liquidity_usd := 30000, age_hours := 10,
                 info := [(''websites'', [''https://example.org''])],
                 liquidity_lock_score := Some 100 \<rparr>"

definition example_high_token :: Token where
  "example_high_token =
     Token_init\<lparr> liquidity_usd := 20000, age_hours := 10, liquidity_lock_score := Some 45 \<rparr>"

definition example_quiet_token :: Token where
  "example_quiet_token =
     Token_init\<lparr> liquidity_usd := 60000, age_hours := 200,
                 info := [(''websites'', [''https://example.org''])],
                 liquidity_lock_score := Some 100 \<rparr>"

subsection \<open>The dispatch times of a source other than GoPlus\<close>

text \<open>
  The times at which the requests of one caller to one such source are dispatched, from
  the spacing \<open>delay\<close>, the stored time of the last request, the clock, and the idle
  time before each request.
\<close>

fun spaced_dispatch :: "real \<Rightarrow> time option \<Rightarrow> time \<Rightarrow> real list \<Rightarrow> time list" where
  "spaced_dispatch delay l c [] = []"
| "spaced_dispatch delay None c (idle # rest) =
     (c + idle) # spaced_dispatch delay (Some (c + idle)) (c + idle) rest"
| "spaced_dispatch delay (Some x) c (idle # rest) =
     (if c + idle - x < delay
      then (x + delay) # spaced_dispatch delay (Some (c + idle)) (x + delay) rest
      else (c + idle) # spaced_dispatch delay (Some (c + idle)) (c + idle) rest)"

text \<open>
  Thirteen requests in a row: the first at once, each of the others a tenth of a second
  after the one before it was dispatched.
\<close>

definition etherscan_burst :: "real list" where
  "etherscan_burst = [0, 1 / 10, 1 / 10, 1 / 10, 1 / 10, 1 / 10, 1 / 10, 1 / 10, 1 / 10,
     1 / 10, 1 / 10, 1 / 10, 1 / 10]"

subsection \<open>Concrete caches and worlds used to evaluate the lookups\<close>

text \<open>A world in which every request times out.\<close>

definition dead_world :: world where
  "dead_world =
     \<lparr> goplus_token_security = (\<lambda>chain_id addresses i. Raises TimeoutError),
       etherscan_getsourcecode = (\<lambda>a. Raises TimeoutError),
       bscscan_getsourcecode = (\<lambda>a. Raises TimeoutError),
       jupiter_strict = (\<lambda>a. Raises TimeoutError),
       solana_getAccountInfo = (\<lambda>endpoint a. Raises TimeoutError) \<rparr>"

definition example_clock :: "time \<Rightarrow> lock_clock" where
  "example_clock t = \<lparr> at_lookup = t, at_unlock = t, at_analysis = t, at_store = t \<rparr>"

definition example_cached_result :: ContractVerificationResult where
  "example_cached_result =
     ContractVerificationResult_default\<lparr>is_verified := True, verification_source := SrcGoPlus\<rparr>"

definition example_cached_lock :: LiquidityLockInfo where
  "example_cached_lock =
     LiquidityLockInfo_default\<lparr>is_locked := True, locked_percentage := 60,
        lock_duration_days := 90, platform := ''Mudra''\<rparr>"

subsection \<open>A request whose attempts all fail\<close>

text \<open>
  Three attempts that all fail: a timeout, a rate-limit answer, and an answer whose body
  is not JSON.
\<close>

definition failing_request :: "nat \<Rightarrow> json http_outcome" where
  "failing_request attempt =
     (if attempt = 0 then Raises TimeoutError
      else if attempt = 1 then Responds 429 (Inr JNull)
      else Responds 200 (Inl JSONDecodeError))"

definition example_scanner :: scanner where
  "example_scanner = \<lparr> max_retries = 3, adaptive_delay = None, request_count = 0 \<rparr>"

definition example_batch_result :: results where
  "example_batch_result = [''0xabc'' \<mapsto> ContractVerificationResult_default]"

subsection \<open>Conditions on the outside world, and concrete batches\<close>




text \<open>The addresses held by a grouping of contracts by chain.\<close>

definition group_addresses :: "(string \<times> string list) list \<Rightarrow> string set" where
  "group_addresses groups = (\<Union>g \<in> set groups. set (snd g))"


subsection \<open>A honeypot with locked liquidity\<close>

text \<open>
  A token that GoPlus reports as a verified honeypot and whose liquidity lock is in the
  table of known locks (100 percent for 730 days on Unicrypt): the world that answers,
  the token as the discovery feed describes it, and what the two lookups return for it.
\<close>

definition locked_address :: string where
  "locked_address = ''0x514910771af9ca656af840dff83e8264ecf986ca''"

definition honeypot_info :: any_dict where
  "honeypot_info =
     [(''is_honeypot'', ''1''), (''is_open_source'', ''1''), (''buy_tax'', ''2''),
      (''sell_tax'', ''2'')]"

definition honeypot_world :: world where
  "honeypot_world =
     dead_world\<lparr>goplus_token_security :=
       (\<lambda>chain_id addresses i.
          Responds 200 (Inr \<lparr>payload_code = Some 1,
                              payload_result = Some [(locked_address, honeypot_info)]\<rparr>))\<rparr>"

definition honeypot_token :: Token where
  "honeypot_token =
     Token_init\<lparr> address := locked_address, network := ''ethereum'',
                 pair_address := ''0xa2107fa5b38d9bbd2c461d6edf11b11a50f6b974'',
                 liquidity_usd := 500000, age_hours := 1000,
                 info := [(''websites'', [''https://example.org''])] \<rparr>"

definition honeypot_result :: ContractVerificationResult where
  "honeypot_result = (goplus_fields honeypot_info)\<lparr>verification_source := SrcGoPlus\<rparr>"

definition honeypot_results :: "py_error + results" where
  "honeypot_results =
     verify_contracts_batch default_config honeypot_world
       [(address honeypot_token, network honeypot_token)]"

definition honeypot_lock :: LiquidityLockInfo where
  "honeypot_lock =
     fst (check_liquidity_lock Map.empty (example_clock 0) (address honeypot_token)
            (pair_address honeypot_token) (network honeypot_token))"

subsection \<open>Concrete reports used to evaluate the weighted score\<close>

text \<open>
  Two verified contracts with the defaults of the models everywhere else: one whose audit
  dictionary holds a single critical finding and nothing else, one with the default
  dictionary.
\<close>

definition critical_report :: TokenSecurityReport where
  "critical_report =
     report_of ''0xabc''
       (ContractAnalysis_default\<lparr>verified := True, audit_results := [(''critical'', 1)]\<rparr>)"

definition verified_report :: TokenSecurityReport where
  "verified_report = report_of ''0xabc'' (ContractAnalysis_default\<lparr>verified := True\<rparr>)"

section \<open>Properties of the lock score\<close>

lemma score_percentage_step_eq:
  "score_percentage_step li s = s + spec_percentage_points (locked_percentage li)"
  by (simp add: score_percentage_step_def spec_percentage_points_def)

lemma score_duration_step_eq:
  "score_duration_step li s = s + spec_duration_points (lock_duration_days li)"
  by (simp add: score_duration_step_def spec_duration_points_def)

lemma score_platform_step_eq:
  "score_platform_step li s = s + spec_platform_points (platform li)"
  by (simp add: score_platform_step_def spec_platform_points_def trusted_platforms_def)

lemma get_lock_score_locked:
  "is_locked li \<Longrightarrow>
   get_lock_score li = min (30 + spec_percentage_points (locked_percentage li)
                               + spec_duration_points (lock_duration_days li)
                               + spec_platform_points (platform li)) 100"
  by (simp add: get_lock_score_def Let_def score_percentage_step_eq
      score_duration_step_eq score_platform_step_eq)

lemma spec_percentage_points_mono: "p \<le> q \<Longrightarrow> spec_percentage_points p \<le> spec_percentage_points q"
  by (simp add: spec_percentage_points_def)

lemma spec_duration_points_mono: "d \<le> e \<Longrightarrow> spec_duration_points d \<le> spec_duration_points e"
  by (simp add: spec_duration_points_def)

text \<open>
  C3. The lock score is non-decreasing in the locked percentage when every other field
  is held fixed, non-decreasing in the lock duration when every other field is held
  fixed, and is exactly 0 for every record with \<open>is_locked = False\<close>.
\<close>

theorem get_lock_score_monotone:
  "(p \<le> q \<longrightarrow>
      get_lock_score (li\<lparr>locked_percentage := p\<rparr>) \<le> get_lock_score (li\<lparr>locked_percentage := q\<rparr>))
   \<and> (d \<le> e \<longrightarrow>
      get_lock_score (li\<lparr>lock_duration_days := d\<rparr>) \<le> get_lock_score (li\<lparr>lock_duration_days := e\<rparr>))
   \<and> (\<not> is_locked li \<longrightarrow> get_lock_score li = 0)"
proof (intro conjI impI)
  assume pq: "p \<le> q"
  show "get_lock_score (li\<lparr>locked_percentage := p\<rparr>) \<le> get_lock_score (li\<lparr>locked_percentage := q\<rparr>)"
  proof (cases "is_locked li")
    case True
    from spec_percentage_points_mono [OF pq] True show ?thesis
      by (simp add: get_lock_score_locked)
  next
    case False
    then show ?thesis by (simp add: get_lock_score_def)
  qed
next
  assume de: "d \<le> e"
  show "get_lock_score (li\<lparr>lock_duration_days := d\<rparr>) \<le> get_lock_score (li\<lparr>lock_duration_days := e\<rparr>)"
  proof (cases "is_locked li")
    case True
    from spec_duration_points_mono [OF de] True show ?thesis
      by (simp add: get_lock_score_locked)
  next
    case False
    then show ?thesis by (simp add: get_lock_score_def)
  qed
next
  assume "\<not> is_locked li"
  then show "get_lock_score li = 0" by (simp add: get_lock_score_def)
qed

theorem get_lock_score_monotone_witness:
  "(75::real) \<le> 95 \<and> (30::int) \<le> 365
   \<and> get_lock_score (LiquidityLockInfo_default\<lparr>is_locked := True, platform := ''Unicrypt'',
         lock_duration_days := 180, locked_percentage := 75\<rparr>) = 80
   \<and> get_lock_score (LiquidityLockInfo_default\<lparr>is_locked := True, platform := ''Unicrypt'',
         lock_duration_days := 180, locked_percentage := 95\<rparr>) = 95
   \<and> get_lock_score (LiquidityLockInfo_default\<lparr>is_locked := True, platform := ''Unicrypt'',
         locked_percentage := 75, lock_duration_days := 30\<rparr>)
       \<le> get_lock_score (LiquidityLockInfo_default\<lparr>is_locked := True, platform := ''Unicrypt'',
         locked_percentage := 75, lock_duration_days := 365\<rparr>)
   \<and> get_lock_score LiquidityLockInfo_default = 0"
  using get_lock_score_monotone [of 75 95
      "LiquidityLockInfo_default\<lparr>is_locked := True, platform := ''Unicrypt'', lock_duration_days := 180\<rparr>"
      30 365]
    get_lock_score_monotone [of 75 95
      "LiquidityLockInfo_default\<lparr>is_locked := True, platform := ''Unicrypt'', locked_percentage := 75\<rparr>"
      30 365]
    get_lock_score_monotone [of 0 0 LiquidityLockInfo_default 0 0]
  by (simp add: get_lock_score_def LiquidityLockInfo_default_def Let_def
      score_percentage_step_def score_duration_step_def score_platform_step_def
      trusted_platforms_def)

text \<open>
  C4. For a locked record the score is the base of 30 plus the percentage, duration and
  platform components of the table, capped at 100; for an unlocked record it is 0
  whatever the other fields hold. The cap is never reached from above: the components
  add up to at most 100.
\<close>

theorem get_lock_score_table:
  "get_lock_score li = spec_lock_score li
   \<and> 30 + spec_percentage_points (locked_percentage li)
        + spec_duration_points (lock_duration_days li)
        + spec_platform_points (platform li) \<le> 100
   \<and> 0 \<le> get_lock_score li \<and> get_lock_score li \<le> 100"
proof -
  have eq: "get_lock_score li = spec_lock_score li"
  proof (cases "is_locked li")
    case True
    then show ?thesis
      using get_lock_score_locked [OF True] by (simp add: spec_lock_score_def min.commute)
  next
    case False
    then show ?thesis by (simp add: spec_lock_score_def get_lock_score_def)
  qed
  have le: "30 + spec_percentage_points (locked_percentage li)
        + spec_duration_points (lock_duration_days li)
        + spec_platform_points (platform li) \<le> 100"
    by (simp add: spec_percentage_points_def spec_duration_points_def spec_platform_points_def)
  have ge: "0 \<le> 30 + spec_percentage_points (locked_percentage li)
        + spec_duration_points (lock_duration_days li)
        + spec_platform_points (platform li)"
    by (simp add: spec_percentage_points_def spec_duration_points_def spec_platform_points_def)
  from ge le have "0 \<le> spec_lock_score li \<and> spec_lock_score li \<le> 100"
    by (simp add: spec_lock_score_def)
  with eq le show ?thesis by simp
qed

theorem get_lock_score_table_witness:
  "get_lock_score (LiquidityLockInfo_default\<lparr>is_locked := True, locked_percentage := 85,
       lock_duration_days := 100, platform := ''DxSale''\<rparr>) = 75
   \<and> get_lock_score (LiquidityLockInfo_default\<lparr>locked_percentage := 95,
       lock_duration_days := 400, platform := ''Team Finance''\<rparr>) = 0"
  using get_lock_score_table [of "LiquidityLockInfo_default\<lparr>is_locked := True, locked_percentage := 85,
       lock_duration_days := 100, platform := ''DxSale''\<rparr>"]
    get_lock_score_table [of "LiquidityLockInfo_default\<lparr>locked_percentage := 95,
       lock_duration_days := 400, platform := ''Team Finance''\<rparr>"]
  by (simp add: spec_lock_score_def LiquidityLockInfo_default_def spec_percentage_points_def
      spec_duration_points_def spec_platform_points_def)

section \<open>Properties of the weighted risk assessment\<close>

lemma verification_score_range:
  "calculate_verification_score td = Inr v \<Longrightarrow> 0 \<le> v \<and> v \<le> 9 / 10"
  by (auto simp: calculate_verification_score_def bind_err_def dict_item_def Let_def
      split: if_splits option.splits)

lemma verification_score_returns_iff:
  "\<not> isl (calculate_verification_score td) \<longleftrightarrow>
     (\<not> verified (contract_analysis td)
      \<or> (\<exists>c. map_of (audit_results (contract_analysis td)) ''critical'' = Some c
            \<and> (0 < c
               \<or> (\<exists>h. map_of (audit_results (contract_analysis td)) ''high'' = Some h
                     \<and> (0 < h
                        \<or> map_of (audit_results (contract_analysis td)) ''medium'' \<noteq> None)))))"
  by (auto simp: calculate_verification_score_def bind_err_def dict_item_def Let_def
      split: if_splits option.splits)

lemma ownership_score_range: "0 \<le> calculate_ownership_score td \<and> calculate_ownership_score td \<le> 9 / 10"
  by (simp add: calculate_ownership_score_def)
lemma liquidity_score_range: "0 \<le> calculate_liquidity_score td \<and> calculate_liquidity_score td \<le> 9 / 10"
  by (simp add: calculate_liquidity_score_def)
lemma distribution_score_range: "0 \<le> calculate_distribution_score td \<and> calculate_distribution_score td \<le> 9 / 10"
  by (simp add: calculate_distribution_score_def Let_def)
lemma trading_score_range: "0 \<le> calculate_trading_score td \<and> calculate_trading_score td \<le> 9 / 10"
  by (simp add: calculate_trading_score_def Let_def)
lemma audit_score_range: "0 \<le> calculate_audit_score td \<and> calculate_audit_score td \<le> 9 / 10"
  by (simp add: calculate_audit_score_def Let_def)

lemma weights_sum: "sum_list (map snd weights) = 1"
  by (simp add: weights_def)

lemma risk_score_unfold:
  "calculate_verification_score td = Inr v \<Longrightarrow>
   calculate_risk_score td =
     Inr \<lparr> overall_score = v * (15 / 100) + calculate_ownership_score td * (20 / 100)
             + calculate_liquidity_score td * (25 / 100)
             + calculate_distribution_score td * (15 / 100)
             + calculate_trading_score td * (10 / 100)
             + calculate_audit_score td * (10 / 100)
             + calculate_community_score td * (5 / 100),
           assessment_risk_level = get_risk_level (v * (15 / 100) + calculate_ownership_score td * (20 / 100)
             + calculate_liquidity_score td * (25 / 100)
             + calculate_distribution_score td * (15 / 100)
             + calculate_trading_score td * (10 / 100)
             + calculate_audit_score td * (10 / 100)
             + calculate_community_score td * (5 / 100)),
           confidence = calculate_confidence [(''contract_verification'', v),
              (''ownership_status'', calculate_ownership_score td),
              (''liquidity_lock'', calculate_liquidity_score td),
              (''holder_distribution'', calculate_distribution_score td),
              (''trading_patterns'', calculate_trading_score td),
              (''code_audit'', calculate_audit_score td),
              (''community_reports'', calculate_community_score td)],
           breakdown = [(''contract_verification'', v),
              (''ownership_status'', calculate_ownership_score td),
              (''liquidity_lock'', calculate_liquidity_score td),
              (''holder_distribution'', calculate_distribution_score td),
              (''trading_patterns'', calculate_trading_score td),
              (''code_audit'', calculate_audit_score td),
              (''community_reports'', calculate_community_score td)],
           recommendations = projr (generate_recommendations [(''contract_verification'', v),
              (''ownership_status'', calculate_ownership_score td),
              (''liquidity_lock'', calculate_liquidity_score td),
              (''holder_distribution'', calculate_distribution_score td),
              (''trading_patterns'', calculate_trading_score td),
              (''code_audit'', calculate_audit_score td),
              (''community_reports'', calculate_community_score td)] td) \<rparr>"
  by (simp add: calculate_risk_score_def bind_err_def dict_item_def weights_def Let_def
      generate_recommendations_def)

lemma risk_score_returns_iff:
  "isl (calculate_risk_score td) = isl (calculate_verification_score td)"
proof (cases "calculate_verification_score td")
  case (Inl e)
  then show ?thesis by (simp add: calculate_risk_score_def bind_err_def)
next
  case (Inr v)
  from risk_score_unfold [OF Inr] Inr show ?thesis by simp
qed

lemma weighted_breakdown:
  "calculate_verification_score td = Inr v \<Longrightarrow> calculate_risk_score td = Inr ra \<Longrightarrow>
   map fst (breakdown ra) = map fst weights
   \<and> overall_score ra = sum_list (map (\<lambda>(s, w). s * w) (zip (map snd (breakdown ra)) (map snd weights)))"
  using risk_score_unfold [of td v] by (auto simp: weights_def)

lemma confidence_loop_nonneg:
  "\<forall>s \<in> set xs. 0 \<le> s \<Longrightarrow> confidence_loop xs c = c + real (length xs) / 10"
proof (induction xs arbitrary: c)
  case Nil
  then show ?case by simp
next
  case (Cons x xs)
  then have "confidence_loop (x # xs) c = confidence_loop xs (c + 1 / 10)" by simp
  also have "\<dots> = (c + 1 / 10) + real (length xs) / 10" using Cons by simp
  finally show ?case by (simp add: field_simps)
qed


text \<open>
  C8. Every assessment that \<open>calculate_risk_score\<close> returns has as overall score the
  weighted sum of the seven signal scores with the weights 0.15 (contract verification),
  0.20 (ownership), 0.25 (liquidity lock), 0.15 (holder distribution), 0.10 (trading
  patterns), 0.10 (code audit) and 0.05 (community reports); the breakdown lists the
  seven signals in the order of the weights, the weights add up to 1, and the overall
  score lies between 0 and 1. An assessment is returned exactly when the entries of
  \<open>audit_results\<close> that the verification score reads are present: none for an
  unverified contract, otherwise \<open>critical\<close>, then \<open>high\<close> if no critical finding
  is counted, then \<open>medium\<close> if no high finding is counted either. No code of the
  repository assigns \<open>audit_results\<close>, so every report that is scored carries the
  default dictionary of \<open>ContractAnalysis\<close> (all four counts 0); for each such report,
  whatever its other fields, an assessment is returned and the verification score is 0.1
  for a verified and 0.8 for an unverified contract.
\<close>

theorem calculate_risk_score_weighted_sum:
  "(calculate_risk_score td = Inr ra \<longrightarrow>
      (\<exists>v. calculate_verification_score td = Inr v
         \<and> overall_score ra =
               15 / 100 * v
             + 20 / 100 * calculate_ownership_score td
             + 25 / 100 * calculate_liquidity_score td
             + 15 / 100 * calculate_distribution_score td
             + 10 / 100 * calculate_trading_score td
             + 10 / 100 * calculate_audit_score td
             + 5 / 100 * calculate_community_score td)
      \<and> map fst (breakdown ra) = map fst weights
      \<and> overall_score ra
          = sum_list (map (\<lambda>(s, w). s * w) (zip (map snd (breakdown ra)) (map snd weights)))
      \<and> 0 \<le> overall_score ra \<and> overall_score ra \<le> 1)
   \<and> sum_list (map snd weights) = 1
   \<and> (\<not> isl (calculate_risk_score td) \<longleftrightarrow>
        (\<not> verified (contract_analysis td)
         \<or> (\<exists>c. map_of (audit_results (contract_analysis td)) ''critical'' = Some c
               \<and> (0 < c
                  \<or> (\<exists>h. map_of (audit_results (contract_analysis td)) ''high'' = Some h
                        \<and> (0 < h
                           \<or> map_of (audit_results (contract_analysis td)) ''medium''
                                \<noteq> None))))))
   \<and> (audit_results (contract_analysis td) = audit_results ContractAnalysis_default \<longrightarrow>
        \<not> isl (calculate_risk_score td)
        \<and> calculate_verification_score td
            = Inr (if verified (contract_analysis td) then 1 / 10 else 8 / 10))"
proof (intro conjI impI)
  assume r: "calculate_risk_score td = Inr ra"
  then have "\<not> isl (calculate_verification_score td)"
    using risk_score_returns_iff [of td] by simp
  then obtain v where v: "calculate_verification_score td = Inr v"
    by (cases "calculate_verification_score td") auto
  let ?total = "v * (15 / 100) + calculate_ownership_score td * (20 / 100)
             + calculate_liquidity_score td * (25 / 100)
             + calculate_distribution_score td * (15 / 100)
             + calculate_trading_score td * (10 / 100)
             + calculate_audit_score td * (10 / 100)
             + calculate_community_score td * (5 / 100)"
  have sc: "overall_score ra = ?total"
    using risk_score_unfold [OF v] r by auto
  have rng: "0 \<le> ?total \<and> ?total \<le> 1"
    using verification_score_range [OF v] ownership_score_range [of td]
      liquidity_score_range [of td] distribution_score_range [of td]
      trading_score_range [of td] audit_score_range [of td]
    by (simp add: calculate_community_score_def)
  from v sc show "\<exists>v. calculate_verification_score td = Inr v
         \<and> overall_score ra =
               15 / 100 * v
             + 20 / 100 * calculate_ownership_score td
             + 25 / 100 * calculate_liquidity_score td
             + 15 / 100 * calculate_distribution_score td
             + 10 / 100 * calculate_trading_score td
             + 10 / 100 * calculate_audit_score td
             + 5 / 100 * calculate_community_score td"
    by (simp add: algebra_simps)
  from weighted_breakdown [OF v r]
  show "map fst (breakdown ra) = map fst weights"
    and "overall_score ra
          = sum_list (map (\<lambda>(s, w). s * w) (zip (map snd (breakdown ra)) (map snd weights)))"
    by simp_all
  from sc rng show "0 \<le> overall_score ra" and "overall_score ra \<le> 1" by simp_all
next
  show "sum_list (map snd weights) = 1" by (rule weights_sum)
next
  show "\<not> isl (calculate_risk_score td) \<longleftrightarrow>
        (\<not> verified (contract_analysis td)
         \<or> (\<exists>c. map_of (audit_results (contract_analysis td)) ''critical'' = Some c
               \<and> (0 < c
                  \<or> (\<exists>h. map_of (audit_results (contract_analysis td)) ''high'' = Some h
                        \<and> (0 < h
                           \<or> map_of (audit_results (contract_analysis td)) ''medium''
                                \<noteq> None)))))"
    unfolding risk_score_returns_iff by (rule verification_score_returns_iff)
next
  assume d: "audit_results (contract_analysis td) = audit_results ContractAnalysis_default"
  then show v: "calculate_verification_score td
            = Inr (if verified (contract_analysis td) then 1 / 10 else 8 / 10)"
    by (simp add: calculate_verification_score_def ContractAnalysis_default_def bind_err_def
        dict_item_def)
  then show "\<not> isl (calculate_risk_score td)"
    by (simp add: risk_score_returns_iff)
qed

lemma example_report_fields:
  "verified (contract_analysis critical_report)"
  "map_of (audit_results (contract_analysis critical_report)) ''critical'' = Some 1"
  "verified (contract_analysis verified_report)"
  "audit_results (contract_analysis verified_report) = audit_results ContractAnalysis_default"
  by (simp_all add: critical_report_def verified_report_def report_of_def
      ContractAnalysis_default_def)

lemma example_report_scores:
  "calculate_ownership_score critical_report = 9 / 10"
  "calculate_liquidity_score critical_report = 9 / 10"
  "calculate_distribution_score critical_report = 2 / 10"
  "calculate_trading_score critical_report = 9 / 10"
  "calculate_audit_score critical_report = 1 / 10"
  "calculate_ownership_score verified_report = 9 / 10"
  "calculate_liquidity_score verified_report = 9 / 10"
  "calculate_distribution_score verified_report = 2 / 10"
  "calculate_trading_score verified_report = 9 / 10"
  "calculate_audit_score verified_report = 1 / 10"
  by (simp_all add: critical_report_def verified_report_def report_of_def
      ContractAnalysis_default_def calculate_ownership_score_def OwnershipAnalysis_default_def
      calculate_liquidity_score_def DistributionAnalysis_default_def
      calculate_distribution_score_def calculate_trading_score_def TradingAnalysis_default_def
      calculate_audit_score_def Let_def)

lemma critical_report_verification:
  "calculate_verification_score critical_report = Inr (9 / 10)"
  by (simp add: calculate_verification_score_def critical_report_def report_of_def
      ContractAnalysis_default_def bind_err_def dict_item_def)

theorem calculate_risk_score_weighted_sum_witness:
  "verified (contract_analysis critical_report)
   \<and> map_of (audit_results (contract_analysis critical_report)) ''critical'' = Some 1
   \<and> calculate_risk_score critical_report = Inr (projr (calculate_risk_score critical_report))
   \<and> overall_score (projr (calculate_risk_score critical_report)) = 137 / 200
   \<and> verified (contract_analysis verified_report)
   \<and> audit_results (contract_analysis verified_report) = audit_results ContractAnalysis_default
   \<and> calculate_risk_score verified_report = Inr (projr (calculate_risk_score verified_report))
   \<and> overall_score (projr (calculate_risk_score verified_report)) = 113 / 200"
proof -
  note c = calculate_risk_score_weighted_sum [of critical_report
      "projr (calculate_risk_score critical_report)"]
  note d = calculate_risk_score_weighted_sum [of verified_report
      "projr (calculate_risk_score verified_report)"]
  from c example_report_fields(1,2)
  have c1: "calculate_risk_score critical_report
      = Inr (projr (calculate_risk_score critical_report))"
    by simp
  from c c1 obtain v where v: "calculate_verification_score critical_report = Inr v"
    and cs: "overall_score (projr (calculate_risk_score critical_report)) =
               15 / 100 * v
             + 20 / 100 * calculate_ownership_score critical_report
             + 25 / 100 * calculate_liquidity_score critical_report
             + 15 / 100 * calculate_distribution_score critical_report
             + 10 / 100 * calculate_trading_score critical_report
             + 10 / 100 * calculate_audit_score critical_report
             + 5 / 100 * calculate_community_score critical_report"
    by blast
  from v critical_report_verification have "v = 9 / 10" by simp
  with cs have c2: "overall_score (projr (calculate_risk_score critical_report)) = 137 / 200"
    by (simp add: example_report_scores calculate_community_score_def)
  from d example_report_fields(3,4)
  have d1: "calculate_risk_score verified_report
      = Inr (projr (calculate_risk_score verified_report))"
    and dv: "calculate_verification_score verified_report = Inr (1 / 10)"
    by simp_all
  from d d1 obtain w where w: "calculate_verification_score verified_report = Inr w"
    and ds: "overall_score (projr (calculate_risk_score verified_report)) =
               15 / 100 * w
             + 20 / 100 * calculate_ownership_score verified_report
             + 25 / 100 * calculate_liquidity_score verified_report
             + 15 / 100 * calculate_distribution_score verified_report
             + 10 / 100 * calculate_trading_score verified_report
             + 10 / 100 * calculate_audit_score verified_report
             + 5 / 100 * calculate_community_score verified_report"
    by blast
  from w dv have "w = 1 / 10" by simp
  with ds have d2: "overall_score (projr (calculate_risk_score verified_report)) = 113 / 200"
    by (simp add: example_report_scores calculate_community_score_def)
  show ?thesis
    by (intro conjI) (fact example_report_fields c1 c2 d1 d2)+
qed


text \<open>
  C10. Whenever \<open>calculate_risk_score\<close> returns an assessment, its confidence is exactly
  1: the seven scores are non-negative, so the loop of \<open>calculate_confidence\<close> reaches
  0.5 + 7 * 0.1 = 1.2, which is capped at 1. The same holds for any seven non-negative
  scores.
\<close>

theorem calculate_confidence_constant:
  "(calculate_risk_score td = Inr ra \<longrightarrow> confidence ra = 1)
   \<and> (length scores = 7 \<and> (\<forall>s \<in> set scores. 0 \<le> snd s) \<longrightarrow>
        confidence_loop (map snd scores) (5 / 10) = 12 / 10 \<and> calculate_confidence scores = 1)"
proof (intro conjI impI)
  assume r: "calculate_risk_score td = Inr ra"
  then obtain v where v: "calculate_verification_score td = Inr v"
    by (cases "calculate_verification_score td") (auto simp: calculate_risk_score_def bind_err_def)
  have nn: "\<forall>s \<in> set [v, calculate_ownership_score td, calculate_liquidity_score td,
        calculate_distribution_score td, calculate_trading_score td, calculate_audit_score td,
        calculate_community_score td]. 0 \<le> s"
    using verification_score_range [OF v] ownership_score_range [of td]
      liquidity_score_range [of td] distribution_score_range [of td]
      trading_score_range [of td] audit_score_range [of td]
    by (simp add: calculate_community_score_def)
  from r risk_score_unfold [OF v]
  have "confidence ra = calculate_confidence [(''contract_verification'', v),
              (''ownership_status'', calculate_ownership_score td),
              (''liquidity_lock'', calculate_liquidity_score td),
              (''holder_distribution'', calculate_distribution_score td),
              (''trading_patterns'', calculate_trading_score td),
              (''code_audit'', calculate_audit_score td),
              (''community_reports'', calculate_community_score td)]"
    by auto
  also have "\<dots> = 1"
    unfolding calculate_confidence_def using confidence_loop_nonneg [OF nn, of "5 / 10"] by simp
  finally show "confidence ra = 1" .
next
  assume a: "length scores = 7 \<and> (\<forall>s \<in> set scores. 0 \<le> snd s)"
  then have "\<forall>s \<in> set (map snd scores). 0 \<le> s" by simp
  from confidence_loop_nonneg [OF this, of "5 / 10"] a
  show "confidence_loop (map snd scores) (5 / 10) = 12 / 10" by simp
  then show "calculate_confidence scores = 1" by (simp add: calculate_confidence_def)
qed

theorem calculate_confidence_constant_witness:
  "\<not> isl (calculate_risk_score (report_of ''0xabc'' ContractAnalysis_default))
   \<and> confidence (projr (calculate_risk_score (report_of ''0xabc'' ContractAnalysis_default))) = 1
   \<and> length [(''a'', 0::real), (''b'', 1), (''c'', 0), (''d'', 2), (''e'', 0), (''f'', 0), (''g'', 0)] = 7
   \<and> calculate_confidence
        [(''a'', 0), (''b'', 1), (''c'', 0), (''d'', 2), (''e'', 0), (''f'', 0), (''g'', 0)] = 1"
proof -
  have r: "\<not> isl (calculate_risk_score (report_of ''0xabc'' ContractAnalysis_default))"
    by (simp add: calculate_risk_score_def calculate_verification_score_def report_of_def
        ContractAnalysis_default_def bind_err_def dict_item_def weights_def Let_def
        generate_recommendations_def)
  then have e: "calculate_risk_score (report_of ''0xabc'' ContractAnalysis_default)
      = Inr (projr (calculate_risk_score (report_of ''0xabc'' ContractAnalysis_default)))"
    by simp
  show ?thesis
    using r e calculate_confidence_constant [of "report_of ''0xabc'' ContractAnalysis_default"
        "projr (calculate_risk_score (report_of ''0xabc'' ContractAnalysis_default))"
        "[(''a'', 0), (''b'', 1), (''c'', 0), (''d'', 2), (''e'', 0), (''f'', 0), (''g'', 0)]"]
    by simp
qed

section \<open>Properties of the token risk level\<close>

lemma low_score_level_rank: "1 \<le> level_rank (fst (low_score_level tok)) \<or> fst (low_score_level tok) = Nizkij"
  by (simp add: low_score_level_def Let_def)

lemma threshold_level_rank:
  "level_rank (score_bucket sc) \<le> level_rank (fst (threshold_level tok sc))"
  by (simp add: threshold_level_def score_bucket_def)

lemma medium_gate_rank: "level_rank (fst lf) \<le> level_rank (fst (medium_gate tok lf))"
  by (simp add: medium_gate_def)

lemma high_gate_rank: "level_rank (fst lf) \<le> level_rank (fst (high_gate tok lf))"
  by (simp add: high_gate_def)

lemma risk_level_after:
  "risk_level (Token_calculate_risk_score config tok) =
     fst (high_gate tok (medium_gate tok (threshold_level tok (score (accumulate_score config tok)))))"
  by (simp add: Token_calculate_risk_score_def Let_def)

lemma risk_score_after:
  "risk_score (Token_calculate_risk_score config tok) = score (accumulate_score config tok)"
  by (simp add: Token_calculate_risk_score_def Let_def)

text \<open>
  C9. After the score thresholds are applied in \<open>Token.calculate_risk_score\<close>, the
  liquidity checks only move a token to a worse level: the final level is never better
  than the bucket of the score, and neither of the two gates lowers the rank. A token at
  "Srednij" with liquidity below 50000 is moved by its gate to "Vysokij"; a token at
  "Vysokij" with liquidity below 25000 is moved to "Skam" (the second gate also applies to a
  token the first gate has just moved, so below 25000 the final level is "Skam"); and a
  token whose score is below 25 but whose liquidity is below 100000 ends at "Umerennyj".
\<close>

theorem liquidity_gates_only_downgrade:
  "level_rank (score_bucket (risk_score (Token_calculate_risk_score config tok)))
     \<le> level_rank (risk_level (Token_calculate_risk_score config tok))
   \<and> level_rank (fst lf) \<le> level_rank (fst (medium_gate tok lf))
   \<and> level_rank (fst lf) \<le> level_rank (fst (high_gate tok lf))
   \<and> (fst lf = Srednij \<and> liquidity_usd tok < 50000 \<longrightarrow> fst (medium_gate tok lf) = Vysokij)
   \<and> (fst lf = Vysokij \<and> liquidity_usd tok < 25000 \<longrightarrow> fst (high_gate tok lf) = Skam)
   \<and> (fst (threshold_level tok (risk_score (Token_calculate_risk_score config tok))) = Srednij
        \<and> liquidity_usd tok < 50000 \<longrightarrow>
        risk_level (Token_calculate_risk_score config tok)
          = (if liquidity_usd tok < 25000 then Skam else Vysokij))
   \<and> (fst (threshold_level tok (risk_score (Token_calculate_risk_score config tok))) = Vysokij
        \<and> liquidity_usd tok < 25000 \<longrightarrow>
        risk_level (Token_calculate_risk_score config tok) = Skam)
   \<and> (risk_score (Token_calculate_risk_score config tok) < 25 \<and> liquidity_usd tok < 100000 \<longrightarrow>
        score_bucket (risk_score (Token_calculate_risk_score config tok)) = Nizkij
        \<and> risk_level (Token_calculate_risk_score config tok) = Umerennyj)"
proof -
  let ?sc = "score (accumulate_score config tok)"
  have "level_rank (score_bucket ?sc) \<le> level_rank (fst (threshold_level tok ?sc))"
    by (rule threshold_level_rank)
  also have "\<dots> \<le> level_rank (fst (medium_gate tok (threshold_level tok ?sc)))"
    by (rule medium_gate_rank)
  also have "\<dots> \<le> level_rank (fst (high_gate tok (medium_gate tok (threshold_level tok ?sc))))"
    by (rule high_gate_rank)
  finally have a: "level_rank (score_bucket (risk_score (Token_calculate_risk_score config tok)))
     \<le> level_rank (risk_level (Token_calculate_risk_score config tok))"
    by (simp add: risk_level_after risk_score_after)
  have b: "fst lf = Srednij \<and> liquidity_usd tok < 50000 \<longrightarrow> fst (medium_gate tok lf) = Vysokij"
    by (simp add: medium_gate_def)
  have c: "fst lf = Vysokij \<and> liquidity_usd tok < 25000 \<longrightarrow> fst (high_gate tok lf) = Skam"
    by (simp add: high_gate_def)
  have d: "fst (threshold_level tok (risk_score (Token_calculate_risk_score config tok))) = Srednij
        \<and> liquidity_usd tok < 50000 \<longrightarrow>
        risk_level (Token_calculate_risk_score config tok)
          = (if liquidity_usd tok < 25000 then Skam else Vysokij)"
    by (simp add: risk_level_after risk_score_after medium_gate_def high_gate_def)
  have e: "fst (threshold_level tok (risk_score (Token_calculate_risk_score config tok))) = Vysokij
        \<and> liquidity_usd tok < 25000 \<longrightarrow>
        risk_level (Token_calculate_risk_score config tok) = Skam"
    by (simp add: risk_level_after risk_score_after medium_gate_def high_gate_def)
  have f: "risk_score (Token_calculate_risk_score config tok) < 25 \<and> liquidity_usd tok < 100000 \<longrightarrow>
        score_bucket (risk_score (Token_calculate_risk_score config tok)) = Nizkij
        \<and> risk_level (Token_calculate_risk_score config tok) = Umerennyj"
    by (simp add: risk_level_after risk_score_after medium_gate_def high_gate_def
        threshold_level_def low_score_level_def score_bucket_def Let_def)
  from a b c d e f medium_gate_rank [of lf tok] high_gate_rank [of lf tok]
  show ?thesis by blast
qed

lemmas scoring_defs =
  accumulate_score_def step_price_change_def step_age_def step_liquidity_def
  step_volume_liquidity_def step_socials_def step_transactions_def step_lock_score_def
  step_volume_ratio_def step_extreme_growth_def penalty_def penalty_logged_def
  volume_liquidity_ratio_def info_present_def get_default_def Let_def

lemma example_medium_score: "score (accumulate_score example_config example_medium_token) = 50"
  by (simp add: scoring_defs example_config_def example_medium_token_def Token_init_def)

lemma example_high_score: "score (accumulate_score example_config example_high_token) = 90"
  by (simp add: scoring_defs example_config_def example_high_token_def Token_init_def)

lemma example_quiet_score: "score (accumulate_score example_config example_quiet_token) = 0"
  by (simp add: scoring_defs example_config_def example_quiet_token_def Token_init_def)

theorem liquidity_gates_only_downgrade_witness:
  "fst (threshold_level example_medium_token
          (risk_score (Token_calculate_risk_score example_config example_medium_token))) = Srednij
   \<and> liquidity_usd example_medium_token < 50000
   \<and> risk_level (Token_calculate_risk_score example_config example_medium_token) = Vysokij
   \<and> fst (threshold_level example_high_token
          (risk_score (Token_calculate_risk_score example_config example_high_token))) = Vysokij
   \<and> liquidity_usd example_high_token < 25000
   \<and> risk_level (Token_calculate_risk_score example_config example_high_token) = Skam
   \<and> risk_score (Token_calculate_risk_score example_config example_quiet_token) < 25
   \<and> liquidity_usd example_quiet_token < 100000
   \<and> risk_level (Token_calculate_risk_score example_config example_quiet_token) = Umerennyj
   \<and> fst (medium_gate example_medium_token (Srednij, [])) = Vysokij
   \<and> fst (high_gate example_high_token (Vysokij, [])) = Skam"
proof -
  have m: "fst (threshold_level example_medium_token
          (risk_score (Token_calculate_risk_score example_config example_medium_token))) = Srednij"
    by (simp add: risk_score_after example_medium_score threshold_level_def)
  have ml: "liquidity_usd example_medium_token < 50000 \<and> \<not> liquidity_usd example_medium_token < 25000"
    by (simp add: example_medium_token_def Token_init_def)
  have h: "fst (threshold_level example_high_token
          (risk_score (Token_calculate_risk_score example_config example_high_token))) = Vysokij"
    by (simp add: risk_score_after example_high_score threshold_level_def)
  have hl: "liquidity_usd example_high_token < 25000"
    by (simp add: example_high_token_def Token_init_def)
  have q: "risk_score (Token_calculate_risk_score example_config example_quiet_token) < 25"
    by (simp add: risk_score_after example_quiet_score)
  have ql: "liquidity_usd example_quiet_token < 100000"
    by (simp add: example_quiet_token_def Token_init_def)
  show ?thesis
    using m ml h hl q ql
      liquidity_gates_only_downgrade [of example_config example_medium_token "(Srednij, [])"]
      liquidity_gates_only_downgrade [of example_config example_high_token "(Vysokij, [])"]
      liquidity_gates_only_downgrade [of example_config example_quiet_token "(Nizkij, [])"]
    by simp
qed

section \<open>Properties of the rate limiter\<close>

lemma respect_other_api:
  assumes "api \<noteq> goplus"
  shows "clock (respect_rate_limit config api s)
           = (case last_request_time s api of
                None \<Rightarrow> clock s
              | Some x \<Rightarrow> if clock s - x < request_delays s api
                          then clock s + (request_delays s api - (clock s - x)) else clock s)"
    and "last_request_time (respect_rate_limit config api s) api = Some (clock s)"
    and "request_delays (respect_rate_limit config api s) = request_delays s"
  using assms
  by (simp_all add: respect_rate_limit_def Let_def sleep_def split: option.splits)

lemma sleep_fields:
  "clock (sleep d s) = clock s + d"
  "last_request_time (sleep d s) = last_request_time s"
  "request_delays (sleep d s) = request_delays s"
  by (simp_all add: sleep_def)

lemma serve_other_api:
  assumes "api \<noteq> goplus"
  shows "serve_requests config (map (Pair api) idles) s
           = map (Pair api)
               (spaced_dispatch (request_delays s api) (last_request_time s api) (clock s) idles)"
proof (induction idles arbitrary: s)
  case Nil
  then show ?case by simp
next
  case (Cons idle rest)
  let ?s' = "respect_rate_limit config api (sleep idle s)"
  have l: "last_request_time ?s' api = Some (clock s + idle)"
    using respect_other_api(2) [OF assms, of config "sleep idle s"] by (simp add: sleep_fields)
  have d: "request_delays ?s' = request_delays s"
    using respect_other_api(3) [OF assms, of config "sleep idle s"] by (simp add: sleep_fields)
  show ?case
  proof (cases "last_request_time s api")
    case None
    then have c: "clock ?s' = clock s + idle"
      using respect_other_api(1) [OF assms, of config "sleep idle s"] by (simp add: sleep_fields)
    show ?thesis using Cons.IH [of ?s'] c l d None by (simp add: Let_def)
  next
    case (Some x)
    then have c: "clock ?s' = (if clock s + idle - x < request_delays s api
                               then x + request_delays s api else clock s + idle)"
      using respect_other_api(1) [OF assms, of config "sleep idle s"] by (simp add: sleep_fields)
    show ?thesis using Cons.IH [of ?s'] c l d Some by (simp add: Let_def)
  qed
qed

lemma etherscan_burst_dispatch:
  "spaced_dispatch 5 None 0 etherscan_burst
      = [0, 5, 51 / 10, 101 / 10, 51 / 5, 76 / 5, 153 / 10, 203 / 10, 102 / 5, 127 / 5,
            51 / 2, 61 / 2, 153 / 5]"
  by (simp add: etherscan_burst_def)

text \<open>
  C6. The claim bounds the requests dispatched to a source in any window of 60 seconds
  by the source's limit per minute. With the default limit of 12 for Etherscan (one
  request every 5 seconds), thirteen requests made one after the other are dispatched
  within 31 seconds: \<open>_respect_rate_limit\<close> stores in \<open>last_request_time\<close> the time read
  on entry, before it sleeps, so the request that follows a delayed one finds the
  spacing already elapsed and goes out at once.
\<close>

theorem etherscan_thirteen_calls:
  "ETHERSCAN_RATE_LIMIT default_config = 12
   \<and> serve_requests default_config (map (Pair etherscan) etherscan_burst)
         (limiter_init default_config 0)
       = map (Pair etherscan)
           [0, 5, 51 / 10, 101 / 10, 51 / 5, 76 / 5, 153 / 10, 203 / 10, 102 / 5, 127 / 5,
            51 / 2, 61 / 2, 153 / 5]
   \<and> calls_in_window
         (serve_requests default_config (map (Pair etherscan) etherscan_burst)
            (limiter_init default_config 0))
         etherscan 0 = 13"
proof -
  have i: "request_delays (limiter_init default_config 0) etherscan = 5"
    "last_request_time (limiter_init default_config 0) etherscan = None"
    "clock (limiter_init default_config 0) = 0"
    by (simp_all add: limiter_init_def default_config_def)
  have e: "serve_requests default_config (map (Pair etherscan) etherscan_burst)
         (limiter_init default_config 0)
       = map (Pair etherscan)
           [0, 5, 51 / 10, 101 / 10, 51 / 5, 76 / 5, 153 / 10, 203 / 10, 102 / 5, 127 / 5,
            51 / 2, 61 / 2, 153 / 5]"
    unfolding serve_other_api [of etherscan default_config etherscan_burst
        "limiter_init default_config 0", simplified] i etherscan_burst_dispatch ..
  have w: "calls_in_window (map (Pair etherscan)
           [0, 5, 51 / 10, 101 / 10, 51 / 5, 76 / 5, 153 / 10, 203 / 10, 102 / 5, 127 / 5,
            51 / 2, 61 / 2, 153 / 5]) etherscan 0 = 13"
    by (simp add: calls_in_window_def)
  have n: "ETHERSCAN_RATE_LIMIT default_config = 12" by (simp add: default_config_def)
  from n e w show ?thesis by (simp only: simp_thms)
qed

section \<open>Properties of the two caches\<close>

lemma verify_hit:
  "cache (cache_key_of ch a) = Some (t, v) \<Longrightarrow> now - t < cache_ttl \<Longrightarrow>
   verify_contract_multi_source w cache now stored_at a ch = Inr (v, cache)"
  by (simp add: verify_contract_multi_source_def Let_def)

lemma verify_stale:
  "cache (cache_key_of ch a) = Some (t, v) \<Longrightarrow> cache_ttl \<le> now - t \<Longrightarrow>
   verify_contract_multi_source w cache now stored_at a ch
     = verify_contract_multi_source w (cache(cache_key_of ch a := None)) now stored_at a ch"
  by (simp add: verify_contract_multi_source_def Let_def split: prod.splits option.splits)

lemma verify_miss_stores:
  "cache (cache_key_of ch a) = None \<Longrightarrow>
   verify_contract_multi_source w cache now stored_at a ch = Inr (r, cache') \<Longrightarrow>
   cache' = cache(cache_key_of ch a \<mapsto> (stored_at, r))"
  by (auto simp: verify_contract_multi_source_def Let_def split: prod.splits option.splits if_splits)

lemma verify_keeps_entries:
  "verify_contract_multi_source w cache now stored_at a ch = Inr (r, cache') \<Longrightarrow>
   dom cache \<subseteq> dom cache' \<and> (\<forall>k. k \<noteq> cache_key_of ch a \<longrightarrow> cache' k = cache k)"
  by (auto simp: verify_contract_multi_source_def Let_def split: prod.splits option.splits if_splits)

lemma lock_hit:
  "cache (lock_cache_key ta pa net) = Some (v, t) \<Longrightarrow> at_lookup clk - t < lock_cache_ttl \<Longrightarrow>
   check_liquidity_lock cache clk ta pa net = (v, cache)"
  by (simp add: check_liquidity_lock_def Let_def)

lemma lock_stale:
  "cache (lock_cache_key ta pa net) = Some (v, t) \<Longrightarrow> lock_cache_ttl \<le> at_lookup clk - t \<Longrightarrow>
   check_liquidity_lock cache clk ta pa net
     = check_liquidity_lock (cache(lock_cache_key ta pa net := None)) clk ta pa net"
  by (simp add: check_liquidity_lock_def Let_def)

lemma lock_miss_stores:
  "cache (lock_cache_key ta pa net) = None \<Longrightarrow>
   check_liquidity_lock cache clk ta pa net
     = (find_lock clk ta pa net,
        cache(lock_cache_key ta pa net \<mapsto> (find_lock clk ta pa net, at_store clk)))"
  by (simp add: check_liquidity_lock_def Let_def)

lemma lock_keeps_entries:
  "dom cache \<subseteq> dom (snd (check_liquidity_lock cache clk ta pa net))
   \<and> (\<forall>k. k \<noteq> lock_cache_key ta pa net \<longrightarrow> snd (check_liquidity_lock cache clk ta pa net) k = cache k)"
  by (auto simp: check_liquidity_lock_def Let_def split: option.splits if_splits)

text \<open>
  C5. For both caches (\<open>ContractVerifier.verify_contract_multi_source\<close> and
  \<open>LiquidityLockChecker.check_liquidity_lock\<close>): a lookup made at the clock reading at
  which the entry was stored returns the stored value without asking any source; an
  entry is used exactly when \<open>now - stored < ttl\<close>, and once \<open>ttl\<close> seconds or more have
  passed the call behaves as if the key were absent; on a miss the fresh result is stored
  under the key with the current reading. No call removes an entry: the keys only grow
  and every entry under another key, stale or not, stays as it was.
\<close>

theorem cache_ttl_discipline:
  "verify_contract_multi_source w (cache(cache_key_of ch a \<mapsto> (t, v))) t stored_at a ch
      = Inr (v, cache(cache_key_of ch a \<mapsto> (t, v)))
   \<and> (cache (cache_key_of ch a) = Some (t, v) \<and> now - t < cache_ttl \<longrightarrow>
        verify_contract_multi_source w cache now stored_at a ch = Inr (v, cache))
   \<and> (cache (cache_key_of ch a) = Some (t, v) \<and> cache_ttl \<le> now - t \<longrightarrow>
        verify_contract_multi_source w cache now stored_at a ch
          = verify_contract_multi_source w (cache(cache_key_of ch a := None)) now stored_at a ch)
   \<and> (cache (cache_key_of ch a) = None
        \<and> verify_contract_multi_source w cache now stored_at a ch = Inr (r, cache') \<longrightarrow>
        cache' = cache(cache_key_of ch a \<mapsto> (stored_at, r)))
   \<and> (verify_contract_multi_source w cache now stored_at a ch = Inr (r, cache') \<longrightarrow>
        dom cache \<subseteq> dom cache' \<and> (\<forall>k. k \<noteq> cache_key_of ch a \<longrightarrow> cache' k = cache k))
   \<and> check_liquidity_lock (lcache(lock_cache_key ta pa net \<mapsto> (lv, at_lookup clk))) clk ta pa net
        = (lv, lcache(lock_cache_key ta pa net \<mapsto> (lv, at_lookup clk)))
   \<and> (lcache (lock_cache_key ta pa net) = Some (lv, lt) \<and> at_lookup clk - lt < lock_cache_ttl \<longrightarrow>
        check_liquidity_lock lcache clk ta pa net = (lv, lcache))
   \<and> (lcache (lock_cache_key ta pa net) = Some (lv, lt) \<and> lock_cache_ttl \<le> at_lookup clk - lt \<longrightarrow>
        check_liquidity_lock lcache clk ta pa net
          = check_liquidity_lock (lcache(lock_cache_key ta pa net := None)) clk ta pa net)
   \<and> (lcache (lock_cache_key ta pa net) = None \<longrightarrow>
        check_liquidity_lock lcache clk ta pa net
          = (find_lock clk ta pa net,
             lcache(lock_cache_key ta pa net \<mapsto> (find_lock clk ta pa net, at_store clk))))
   \<and> dom lcache \<subseteq> dom (snd (check_liquidity_lock lcache clk ta pa net))
   \<and> (\<forall>k. k \<noteq> lock_cache_key ta pa net \<longrightarrow>
          snd (check_liquidity_lock lcache clk ta pa net) k = lcache k)"
proof -
  have v1: "verify_contract_multi_source w (cache(cache_key_of ch a \<mapsto> (t, v))) t stored_at a ch
      = Inr (v, cache(cache_key_of ch a \<mapsto> (t, v)))"
    using verify_hit [of "cache(cache_key_of ch a \<mapsto> (t, v))" ch a t v t w stored_at]
    by (simp add: cache_ttl_def)
  have l1: "check_liquidity_lock (lcache(lock_cache_key ta pa net \<mapsto> (lv, at_lookup clk))) clk ta pa net
        = (lv, lcache(lock_cache_key ta pa net \<mapsto> (lv, at_lookup clk)))"
    using lock_hit [of "lcache(lock_cache_key ta pa net \<mapsto> (lv, at_lookup clk))" ta pa net lv
        "at_lookup clk" clk]
    by (simp add: lock_cache_ttl_def)
  from v1 l1 verify_hit [of cache ch a t v now w stored_at]
    verify_stale [of cache ch a t v now w stored_at]
    verify_miss_stores [of cache ch a w now stored_at r cache']
    verify_keeps_entries [of w cache now stored_at a ch r cache']
    lock_hit [of lcache ta pa net lv lt clk] lock_stale [of lcache ta pa net lv lt clk]
    lock_miss_stores [of lcache ta pa net clk] lock_keeps_entries [of lcache clk ta pa net]
  show ?thesis by blast
qed


lemma example_keys:
  "cache_key_of ''ethereum'' ''0xABC'' = ''ethereum_0xabc''"
  "lock_cache_key ''0x1abc'' ''0xdef'' ''ethereum'' = ''0x1abc_0xdef_ethereum''"
  by (simp_all add: cache_key_of_def lock_cache_key_def lower_def lower_char_def)

lemma dead_world_try_sources:
  "try_sources dead_world ''0xABC'' ''ethereum'' = (None, ContractVerificationResult_default)"
  by (simp add: try_sources_def step_goplus_def step_fallback_def step_solana_def
      check_goplus_security_def check_fallback_sources_def check_etherscan_public_def
      chain_id_of_def chain_id_mapping_def dict_get_def guarded_request_def bind_exn_def
      dead_world_def ContractVerificationResult_default_def)

lemma dead_world_miss:
  "verify_contract_multi_source dead_world Map.empty 3601 3602 ''0xABC'' ''ethereum''
     = Inr (ContractVerificationResult_default,
            [''ethereum_0xabc'' \<mapsto> (3602, ContractVerificationResult_default)])"
  by (simp add: verify_contract_multi_source_def Let_def example_keys dead_world_try_sources)

lemma example_find_lock:
  "find_lock (example_clock 3601) ''0x1abc'' ''0xdef'' ''ethereum''
     = LiquidityLockInfo_default\<lparr>is_locked := True, locked_percentage := 95,
         lock_duration_days := 365, platform := ''Team Finance'',
         unlock_date := Some (3601 + 365 * 86400), warnings := [WarnSafeDuration 365]\<rparr>"
  by (simp add: find_lock_def check_external_sources_def analyze_lock_safety_def
      known_locked_tokens_def dict_get_def lower_def lower_char_def starts_with_any_def
      example_clock_def LiquidityLockInfo_default_def Let_def days_def add_warning_def
      min_lock_percentage_def min_lock_days_def safe_lock_days_def trusted_platforms_def)

theorem cache_ttl_discipline_witness:
  "[''ethereum_0xabc'' \<mapsto> (1 :: time, example_cached_result)]
        (cache_key_of ''ethereum'' ''0xABC'') = Some (1, example_cached_result)
   \<and> (100 :: real) - 1 < cache_ttl
   \<and> verify_contract_multi_source dead_world
        [''ethereum_0xabc'' \<mapsto> (1, example_cached_result)] 100 101 ''0xABC'' ''ethereum''
      = Inr (example_cached_result, [''ethereum_0xabc'' \<mapsto> (1, example_cached_result)])
   \<and> cache_ttl \<le> (3601 :: real) - 1
   \<and> verify_contract_multi_source dead_world
        [''ethereum_0xabc'' \<mapsto> (1, example_cached_result)] 3601 3602 ''0xABC'' ''ethereum''
      = Inr (ContractVerificationResult_default,
             [''ethereum_0xabc'' \<mapsto> (3602, ContractVerificationResult_default)])
   \<and> (Map.empty :: verifier_cache) (cache_key_of ''ethereum'' ''0xABC'') = None
   \<and> [''0x1abc_0xdef_ethereum'' \<mapsto> (example_cached_lock, 1 :: time)]
        (lock_cache_key ''0x1abc'' ''0xdef'' ''ethereum'') = Some (example_cached_lock, 1)
   \<and> at_lookup (example_clock 100) - 1 < lock_cache_ttl
   \<and> check_liquidity_lock [''0x1abc_0xdef_ethereum'' \<mapsto> (example_cached_lock, 1)]
        (example_clock 100) ''0x1abc'' ''0xdef'' ''ethereum''
      = (example_cached_lock, [''0x1abc_0xdef_ethereum'' \<mapsto> (example_cached_lock, 1)])
   \<and> lock_cache_ttl \<le> at_lookup (example_clock 3601) - 1
   \<and> fst (check_liquidity_lock [''0x1abc_0xdef_ethereum'' \<mapsto> (example_cached_lock, 1)]
        (example_clock 3601) ''0x1abc'' ''0xdef'' ''ethereum'')
      = find_lock (example_clock 3601) ''0x1abc'' ''0xdef'' ''ethereum''
   \<and> locked_percentage (find_lock (example_clock 3601) ''0x1abc'' ''0xdef'' ''ethereum'') = 95"
proof -
  let ?c = "[''ethereum_0xabc'' \<mapsto> (1 :: real, example_cached_result)]"
  let ?l = "[''0x1abc_0xdef_ethereum'' \<mapsto> (example_cached_lock, 1 :: real)]"
  have k: "?c (cache_key_of ''ethereum'' ''0xABC'') = Some (1, example_cached_result)"
    "(Map.empty :: verifier_cache) (cache_key_of ''ethereum'' ''0xABC'') = None"
    "?l (lock_cache_key ''0x1abc'' ''0xdef'' ''ethereum'') = Some (example_cached_lock, 1)"
    by (simp_all add: example_keys)
  have t: "(100 :: real) - 1 < cache_ttl" "cache_ttl \<le> (3601 :: real) - 1"
    "at_lookup (example_clock 100) - 1 < lock_cache_ttl"
    "lock_cache_ttl \<le> at_lookup (example_clock 3601) - 1"
    by (simp_all add: cache_ttl_def lock_cache_ttl_def example_clock_def)
  have e: "?c(cache_key_of ''ethereum'' ''0xABC'' := None) = Map.empty"
    "?l(lock_cache_key ''0x1abc'' ''0xdef'' ''ethereum'' := None) = Map.empty"
    by (simp_all add: example_keys)
  note hit = cache_ttl_discipline [of dead_world ?c "''ethereum''" "''0xABC''" 1
      example_cached_result 101 100 ContractVerificationResult_default Map.empty
      ?l "''0x1abc''" "''0xdef''" "''ethereum''" example_cached_lock "example_clock 100" 1]
  note stale = cache_ttl_discipline [of dead_world ?c "''ethereum''" "''0xABC''" 1
      example_cached_result 3602 3601 ContractVerificationResult_default Map.empty
      ?l "''0x1abc''" "''0xdef''" "''ethereum''" example_cached_lock "example_clock 3601" 1]
  note miss = cache_ttl_discipline [of dead_world Map.empty "''ethereum''" "''0xABC''" 1
      example_cached_result 3602 3601 ContractVerificationResult_default
      "[''ethereum_0xabc'' \<mapsto> (3602, ContractVerificationResult_default)]"
      Map.empty "''0x1abc''" "''0xdef''" "''ethereum''" example_cached_lock "example_clock 3601" 1]
  have h1: "verify_contract_multi_source dead_world ?c 100 101 ''0xABC'' ''ethereum''
      = Inr (example_cached_result, ?c)"
    using hit k t by blast
  have h2: "verify_contract_multi_source dead_world ?c 3601 3602 ''0xABC'' ''ethereum''
      = Inr (ContractVerificationResult_default,
             [''ethereum_0xabc'' \<mapsto> (3602, ContractVerificationResult_default)])"
    using stale k t e(1) dead_world_miss by simp
  have h3: "check_liquidity_lock ?l (example_clock 100) ''0x1abc'' ''0xdef'' ''ethereum''
      = (example_cached_lock, ?l)"
    using hit k t by blast
  have h4: "fst (check_liquidity_lock ?l (example_clock 3601) ''0x1abc'' ''0xdef'' ''ethereum'')
      = find_lock (example_clock 3601) ''0x1abc'' ''0xdef'' ''ethereum''"
    using stale miss k t e(2) by simp
  have h5: "locked_percentage (find_lock (example_clock 3601) ''0x1abc'' ''0xdef'' ''ethereum'') = 95"
    by (simp add: example_find_lock LiquidityLockInfo_default_def)
  show ?thesis by (intro conjI) (fact k t h1 h2 h3 h4 h5)+
qed

section \<open>Properties of the retry loop and of the batch wrapper\<close>

lemma handle_exception_flow:
  "is_Exception e \<Longrightarrow>
   handle_exception s attempt e = Return (JDict []) \<or> handle_exception s attempt e = Continue"
  by (simp add: handle_exception_def)

lemma attempt_body_failed:
  assumes "failed_attempt outcome" and "\<forall>e. raised_by outcome = Some e \<longrightarrow> is_Exception e"
  shows "fst (attempt_body s attempt outcome) = Return (JDict [])
       \<or> fst (attempt_body s attempt outcome) = Continue"
proof (cases outcome)
  case (Raises e)
  with assms handle_exception_flow [of e s attempt] show ?thesis
    by (simp add: attempt_body_def)
next
  case (Responds st body)
  show ?thesis
  proof (cases body)
    case (Inl e)
    with Responds assms have "is_Exception e" by simp
    from handle_exception_flow [OF this] handle_exception_flow [of ClientError]
    show ?thesis using Responds Inl
      by (simp add: attempt_body_def Let_def)
  next
    case (Inr data)
    with Responds assms have "st = 429 \<or> st \<ge> 400" by simp
    with handle_exception_flow [of ClientError] show ?thesis using Responds Inr
      by (auto simp: attempt_body_def Let_def)
  qed
qed

lemma attempt_body_safe:
  assumes "\<forall>e. raised_by outcome = Some e \<longrightarrow> is_Exception e"
  shows "\<forall>e. fst (attempt_body s attempt outcome) \<noteq> Propagate e"
proof (cases outcome)
  case (Raises e)
  with assms show ?thesis by (simp add: attempt_body_def handle_exception_def)
next
  case (Responds st body)
  with assms show ?thesis
    by (cases body) (simp_all add: attempt_body_def handle_exception_def Let_def)
qed

lemma attempt_loop_failed:
  "\<forall>a \<in> set attempts. failed_attempt (request a)
        \<and> (\<forall>e. raised_by (request a) = Some e \<longrightarrow> is_Exception e) \<Longrightarrow>
   \<exists>s'. attempt_loop request attempts s = Inr (JDict [], s')"
proof (induction attempts arbitrary: s)
  case Nil
  then show ?case by simp
next
  case (Cons a rest)
  obtain fl s1 where b: "attempt_body s a (request a) = (fl, s1)"
    by (cases "attempt_body s a (request a)")
  from Cons.prems attempt_body_failed [of "request a" s a] b
  have "fl = Return (JDict []) \<or> fl = Continue" by simp
  then show ?case
  proof
    assume "fl = Return (JDict [])"
    with b show ?thesis by simp
  next
    assume "fl = Continue"
    with b Cons.IH [of s1] Cons.prems show ?thesis by simp
  qed
qed

lemma attempt_loop_safe:
  "\<forall>a \<in> set attempts. \<forall>e. raised_by (request a) = Some e \<longrightarrow> is_Exception e \<Longrightarrow>
   \<not> isl (attempt_loop request attempts s)"
proof (induction attempts arbitrary: s)
  case Nil
  then show ?case by simp
next
  case (Cons a rest)
  obtain fl s1 where b: "attempt_body s a (request a) = (fl, s1)"
    by (cases "attempt_body s a (request a)")
  from Cons.prems attempt_body_safe [of "request a" s a] b
  have n: "\<forall>e. fl \<noteq> Propagate e" by simp
  show ?case
  proof (cases fl)
    case (Return data)
    with b show ?thesis by simp
  next
    case Continue
    with b Cons.IH [of s1] Cons.prems show ?thesis by simp
  next
    case (Propagate e)
    with n show ?thesis by simp
  qed
qed

lemma merge_batch_results_append:
  "merge_batch_results (xs @ ys) results = merge_batch_results ys (merge_batch_results xs results)"
  by (induction xs arbitrary: results) simp_all

lemma merge_skips_failure:
  "merge_batch_results (before @ [Inl e] @ after) results
     = merge_batch_results (before @ after) results"
  "merge_batch_results (before @ [Inr Map.empty] @ after) results
     = merge_batch_results (before @ after) results"
  by (simp_all add: merge_batch_results_append)

text \<open>
  C7. When every attempt of \<open>_make_async_request\<close> fails (a timeout or network error,
  a rate-limit answer, a refused request, or an unreadable body) and nothing raised is
  outside \<open>Exception\<close>, the call returns the empty dictionary and raises nothing; more
  generally it raises nothing unless something outside \<open>Exception\<close> is raised.
  \<open>_process_batch_with_progress\<close> turns an exception of its batch into the empty
  dictionary, and the merge after \<open>gather\<close> skips a failed batch: the merged map is the
  one the other batches give.
\<close>

theorem retries_exhausted_return_empty:
  "((\<forall>a \<in> set [0 ..< nat (max_retries s)].
        failed_attempt (request a) \<and> (\<forall>e. raised_by (request a) = Some e \<longrightarrow> is_Exception e))
      \<longrightarrow> (\<exists>s'. make_async_request request s = Inr (JDict [], s')))
   \<and> ((\<forall>a \<in> set [0 ..< nat (max_retries s)].
          \<forall>e. raised_by (request a) = Some e \<longrightarrow> is_Exception e)
      \<longrightarrow> \<not> isl (make_async_request request s))
   \<and> (is_Exception e \<longrightarrow> with_progress (Inl e) = Inr Map.empty)
   \<and> with_progress (Inr d) = Inr d
   \<and> merge_batch_results (before @ [Inl e] @ after) results
        = merge_batch_results (before @ after) results
   \<and> merge_batch_results (before @ [with_progress (Inl TimeoutError)] @ after) results
        = merge_batch_results (before @ after) results"
proof -
  have w: "with_progress (Inl TimeoutError) = Inr Map.empty"
    by (simp add: with_progress_def except_Exception_def)
  have a: "(\<forall>a \<in> set [0 ..< nat (max_retries s)].
        failed_attempt (request a) \<and> (\<forall>e. raised_by (request a) = Some e \<longrightarrow> is_Exception e))
      \<longrightarrow> (\<exists>s'. make_async_request request s = Inr (JDict [], s'))"
    unfolding make_async_request_def
    using attempt_loop_failed [of "[0 ..< nat (max_retries s)]" request s] by blast
  have b: "(\<forall>a \<in> set [0 ..< nat (max_retries s)].
          \<forall>e. raised_by (request a) = Some e \<longrightarrow> is_Exception e)
      \<longrightarrow> \<not> isl (make_async_request request s)"
    unfolding make_async_request_def
    using attempt_loop_safe [of "[0 ..< nat (max_retries s)]" request s] by blast
  have c: "is_Exception e \<longrightarrow> with_progress (Inl e) = Inr Map.empty"
    "with_progress (Inr d) = Inr d"
    by (simp_all add: with_progress_def except_Exception_def)
  have m: "merge_batch_results (before @ [Inl e] @ after) results
        = merge_batch_results (before @ after) results"
    "merge_batch_results (before @ [with_progress (Inl TimeoutError)] @ after) results
        = merge_batch_results (before @ after) results"
    using merge_skips_failure(1) [of before e after results]
      merge_skips_failure(2) [of before after results] by (simp_all add: w)
  show ?thesis by (intro conjI) (fact a b c m)+
qed

lemma failing_request_run:
  "make_async_request failing_request example_scanner
     = Inr (JDict [], example_scanner\<lparr>adaptive_delay := Some (19 / 5), request_count := 2\<rparr>)"
  by (simp add: make_async_request_def example_scanner_def failing_request_def
      attempt_body_def handle_exception_def current_delay_def Let_def upt_rec)

lemma cancelled_request_run:
  "make_async_request (\<lambda>a. Raises CancelledError) example_scanner = Inl CancelledError"
  by (simp add: make_async_request_def example_scanner_def attempt_body_def
      handle_exception_def upt_rec)

theorem retries_exhausted_return_empty_witness:
  "failed_attempt (failing_request 0) \<and> failed_attempt (failing_request 1)
   \<and> failed_attempt (failing_request 2)
   \<and> raised_by (failing_request 0) = Some TimeoutError \<and> is_Exception TimeoutError
   \<and> raised_by (failing_request 1) = None
   \<and> raised_by (failing_request 2) = Some JSONDecodeError \<and> is_Exception JSONDecodeError
   \<and> make_async_request failing_request example_scanner
        = Inr (JDict [], example_scanner\<lparr>adaptive_delay := Some (19 / 5), request_count := 2\<rparr>)
   \<and> with_progress (Inl ClientError) = Inr Map.empty
   \<and> merge_batch_results ([Inr example_batch_result] @ [Inl ClientError] @ []) Map.empty
        = example_batch_result"
proof -
  have f: "failed_attempt (failing_request 0)" "failed_attempt (failing_request 1)"
    "failed_attempt (failing_request 2)"
    "raised_by (failing_request 0) = Some TimeoutError" "is_Exception TimeoutError"
    "raised_by (failing_request 1) = None"
    "raised_by (failing_request 2) = Some JSONDecodeError" "is_Exception JSONDecodeError"
    by (simp_all add: failing_request_def)
  have h: "\<forall>a \<in> set [0 ..< nat (max_retries example_scanner)].
        failed_attempt (failing_request a)
        \<and> (\<forall>e. raised_by (failing_request a) = Some e \<longrightarrow> is_Exception e)"
    by (simp add: example_scanner_def failing_request_def upt_rec)
  note t = retries_exhausted_return_empty [of example_scanner failing_request ClientError
      example_batch_result "[Inr example_batch_result]" "[]" Map.empty]
  have r: "make_async_request failing_request example_scanner
        = Inr (JDict [], example_scanner\<lparr>adaptive_delay := Some (19 / 5), request_count := 2\<rparr>)"
    using t h failing_request_run by blast
  have p: "with_progress (Inl ClientError) = Inr Map.empty"
    using t by simp
  have m: "merge_batch_results ([Inr example_batch_result] @ [Inl ClientError] @ []) Map.empty
        = example_batch_result"
    using t by simp
  show ?thesis by (intro conjI) (fact f r p m)+
qed

section \<open>Properties of batch verification\<close>




















lemma group_addresses_simps [simp]:
  "group_addresses [] = {}"
  "group_addresses ((c, a) # rest) = set a \<union> group_addresses rest"
  "group_addresses (xs @ ys) = group_addresses xs \<union> group_addresses ys"
  by (auto simp: group_addresses_def)













lemma default_chain_ids:
  "chain_id_of ''ethereum'' = Some 1" "chain_id_of ''solana'' = None"
  by (simp_all add: chain_id_of_def chain_id_mapping_def dict_get_def)



section \<open>Honeypot tokens in the pipeline\<close>

lemma add_risk_simps [simp]:
  "risk_score (add_risk n f t) = risk_score t + n"
  "risk_factors (add_risk n f t) = risk_factors t @ [f]"
  "liquidity_usd (add_risk n f t) = liquidity_usd t"
  "age_hours (add_risk n f t) = age_hours t"
  "info (add_risk n f t) = info t"
  "address (add_risk n f t) = address t"
  by (simp_all add: add_risk_def)

lemma info_present_add_risk [simp]: "info_present (add_risk n f t) k = info_present t k"
  by (simp add: info_present_def)

lemma verification_level_rank: "40 \<le> sc \<Longrightarrow> 2 \<le> level_rank (verification_level sc)"
  by (simp add: verification_level_def)

lemma verification_level_Skam: "verification_level sc = Skam \<longleftrightarrow> 80 \<le> sc"
  by (simp add: verification_level_def)

lemma verify_honeypot_score:
  assumes "verification_results (address tok) = Some vr" "is_honeypot vr"
  shows "risk_score tok + 50 \<le> risk_score (verify_contracts_token verification_results tok)"
    and "FactorHoneypot \<in> set (risk_factors (verify_contracts_token verification_results tok))"
    and "risk_level (verify_contracts_token verification_results tok)
           = verification_level (risk_score (verify_contracts_token verification_results tok))"
  using assms by (simp_all add: verify_contracts_token_def Let_def)

lemma check_locks_factors [simp]:
  "risk_factors (check_liquidity_locks_token checker t) = risk_factors t"
  by (simp add: check_liquidity_locks_token_def split: option.splits sum.splits)

lemma penalty_factors: "set (factors st) \<subseteq> set (factors (penalty n f st))"
  "set (factors st) \<subseteq> set (factors (penalty_logged n b f st))"
  by (auto simp: penalty_def penalty_logged_def)

lemma step_keeps_factors:
  "set (factors st) \<subseteq> set (factors (step_price_change config tok st))"
  "set (factors st) \<subseteq> set (factors (step_age tok st))"
  "set (factors st) \<subseteq> set (factors (step_liquidity config tok st))"
  "set (factors st) \<subseteq> set (factors (step_volume_liquidity config tok st))"
  "set (factors st) \<subseteq> set (factors (step_socials tok st))"
  "set (factors st) \<subseteq> set (factors (step_transactions tok st))"
  "set (factors st) \<subseteq> set (factors (step_lock_score tok st))"
  "set (factors st) \<subseteq> set (factors (step_volume_ratio tok st))"
  "set (factors st) \<subseteq> set (factors (step_extreme_growth tok st))"
  using penalty_factors
  by (simp_all add: step_price_change_def step_age_def step_liquidity_def
      step_volume_liquidity_def step_socials_def step_transactions_def step_lock_score_def
      step_volume_ratio_def step_extreme_growth_def Let_def split: option.splits)

lemma accumulate_keeps_factors:
  "set (risk_factors tok) \<subseteq> set (factors (accumulate_score config tok))"
proof -
  define s0 where "s0 = \<lparr>score = 0, factors = risk_factors tok, breakdown_entries = []\<rparr>"
  define s1 where "s1 = step_price_change config tok s0"
  define s2 where "s2 = step_age tok s1"
  define s3 where "s3 = step_liquidity config tok s2"
  define s4 where "s4 = step_volume_liquidity config tok s3"
  define s5 where "s5 = step_socials tok s4"
  define s6 where "s6 = step_transactions tok s5"
  define s7 where "s7 = step_lock_score tok s6"
  define s8 where "s8 = step_volume_ratio tok s7"
  define s9 where "s9 = step_extreme_growth tok s8"
  have e: "accumulate_score config tok = s9"
    by (simp add: accumulate_score_def Let_def s0_def s1_def s2_def s3_def s4_def s5_def
        s6_def s7_def s8_def s9_def)
  have "set (risk_factors tok) \<subseteq> set (factors s0)" by (simp add: s0_def)
  also have "\<dots> \<subseteq> set (factors s1)" unfolding s1_def by (rule step_keeps_factors)
  also have "\<dots> \<subseteq> set (factors s2)" unfolding s2_def by (rule step_keeps_factors)
  also have "\<dots> \<subseteq> set (factors s3)" unfolding s3_def by (rule step_keeps_factors)
  also have "\<dots> \<subseteq> set (factors s4)" unfolding s4_def by (rule step_keeps_factors)
  also have "\<dots> \<subseteq> set (factors s5)" unfolding s5_def by (rule step_keeps_factors)
  also have "\<dots> \<subseteq> set (factors s6)" unfolding s6_def by (rule step_keeps_factors)
  also have "\<dots> \<subseteq> set (factors s7)" unfolding s7_def by (rule step_keeps_factors)
  also have "\<dots> \<subseteq> set (factors s8)" unfolding s8_def by (rule step_keeps_factors)
  also have "\<dots> \<subseteq> set (factors s9)" unfolding s9_def by (rule step_keeps_factors)
  finally show ?thesis by (simp add: e)
qed

lemma calc_keeps_factors:
  "set (risk_factors tok) \<subseteq> set (risk_factors (Token_calculate_risk_score config tok))"
proof -
  have "risk_factors (Token_calculate_risk_score config tok)
      = factors (accumulate_score config tok)
        @ snd (high_gate tok (medium_gate tok
                 (threshold_level tok (score (accumulate_score config tok)))))"
    by (simp add: Token_calculate_risk_score_def Let_def)
  with accumulate_keeps_factors [of tok config] show ?thesis by auto
qed

text \<open>
  C2 (as amended). For a token whose verification result has \<open>is_honeypot = True\<close>,
  \<open>verify_contracts\<close> adds 50 points to the risk score and records the honeypot
  factor; starting from a non-negative score (\<open>Token.__init__\<close> sets 0) the level it
  assigns is never the best one, it is "Srednij" or worse, and it is "Skam" exactly when
  the accumulated score reaches 80. The honeypot factor is still listed after the whole
  pipeline has run.
\<close>

theorem honeypot_verification_penalty:
  assumes "verification_results (address tok) = Some vr" and "is_honeypot vr"
    and "0 \<le> risk_score tok"
  shows "risk_score tok + 50 \<le> risk_score (verify_contracts_token verification_results tok)
       \<and> FactorHoneypot \<in> set (risk_factors (verify_contracts_token verification_results tok))
       \<and> risk_level (verify_contracts_token verification_results tok) \<noteq> Nizkij
       \<and> 2 \<le> level_rank (risk_level (verify_contracts_token verification_results tok))
       \<and> (risk_level (verify_contracts_token verification_results tok) = Skam
            \<longleftrightarrow> 80 \<le> risk_score (verify_contracts_token verification_results tok))
       \<and> FactorHoneypot \<in> set (risk_factors (analyze_token config verification_results checker tok))"
proof -
  let ?t = "verify_contracts_token verification_results tok"
  note h = verify_honeypot_score [of verification_results tok vr, OF assms(1,2)]
  from h(1) assms(3) have "40 \<le> risk_score ?t" by simp
  from verification_level_rank [OF this] h(3)
  have r: "2 \<le> level_rank (risk_level ?t)" by simp
  then have n: "risk_level ?t \<noteq> Nizkij" by auto
  have s: "risk_level ?t = Skam \<longleftrightarrow> 80 \<le> risk_score ?t"
    using h(3) verification_level_Skam by simp
  have f: "FactorHoneypot \<in> set (risk_factors (analyze_token config verification_results checker tok))"
    using h(2) calc_keeps_factors [of "check_liquidity_locks_token checker ?t" config]
    by (auto simp: analyze_token_def)
  from h(1) h(2) r n s f show ?thesis by blast
qed

lemma lower_locked_address: "lower locked_address = locked_address"
  by (simp add: lower_def lower_char_def locked_address_def)

lemma honeypot_token_fields:
  "address honeypot_token = locked_address" "network honeypot_token = ''ethereum''"
  "pair_address honeypot_token = ''0xa2107fa5b38d9bbd2c461d6edf11b11a50f6b974''"
  "liquidity_usd honeypot_token = 500000" "age_hours honeypot_token = 1000"
  "risk_score honeypot_token = 0" "risk_factors honeypot_token = []"
  "info honeypot_token = [(''websites'', [''https://example.org''])]"
  "price_change_24h honeypot_token = 0" "volume_24h honeypot_token = 0"
  "buys_24h honeypot_token = 0" "sells_24h honeypot_token = 0"
  by (simp_all add: honeypot_token_def Token_init_def)

lemma honeypot_result_fields:
  "is_honeypot honeypot_result" "is_verified honeypot_result"
  "\<not> can_take_back_ownership honeypot_result" "\<not> has_mint_function honeypot_result"
  "\<not> has_blacklist honeypot_result" "\<not> is_proxy honeypot_result"
  by (simp_all add: honeypot_result_def goplus_fields_def flag_def dict_get_def
      honeypot_info_def ContractVerificationResult_default_def)

lemma honeypot_results_value:
  "honeypot_results = Inr [locked_address \<mapsto> honeypot_result]"
proof -
  have e: "goplus_entry [(locked_address, honeypot_info)] locked_address = honeypot_result"
    by (simp add: goplus_entry_def lower_locked_address honeypot_result_def)
  have p: "process_batch_with_progress honeypot_world [locked_address] ''ethereum'' 0
      = Inr [locked_address \<mapsto> honeypot_result]"
    by (simp add: process_batch_with_progress_def with_progress_def except_Exception_def
        process_batch_goplus_def default_chain_ids guarded_request_def honeypot_world_def
        goplus_success_def e)
  show ?thesis
    by (simp add: honeypot_results_def honeypot_token_fields verify_contracts_batch_def
        Let_def bind_err_def batches_of_def default_config_def gather_batches_def p)
qed

lemma honeypot_lock_value:
  "honeypot_lock =
     LiquidityLockInfo_default\<lparr>is_locked := True, locked_percentage := 100,
       lock_duration_days := 730, unlock_date := Some (730 * 86400), platform := ''Unicrypt'',
       warnings := [WarnSafeDuration 730]\<rparr>"
  by (simp add: honeypot_lock_def check_liquidity_lock_def find_lock_def
      analyze_lock_safety_def known_locked_tokens_def dict_get_def lower_def lower_char_def
      honeypot_token_fields locked_address_def example_clock_def LiquidityLockInfo_default_def
      Let_def days_def add_warning_def min_lock_percentage_def min_lock_days_def
      safe_lock_days_def trusted_platforms_def)

lemma honeypot_lock_score: "get_lock_score honeypot_lock = 100"
  by (simp add: honeypot_lock_value get_lock_score_def LiquidityLockInfo_default_def Let_def
      score_percentage_step_def score_duration_step_def score_platform_step_def
      trusted_platforms_def)

lemma honeypot_after_verify:
  "risk_score (verify_contracts_token [locked_address \<mapsto> honeypot_result] honeypot_token) = 50"
  "risk_level (verify_contracts_token [locked_address \<mapsto> honeypot_result] honeypot_token)
     = Srednij"
  by (simp_all add: verify_contracts_token_def honeypot_token_fields honeypot_result_fields
      Let_def verification_level_def)

theorem honeypot_verification_penalty_witness:
  "[locked_address \<mapsto> honeypot_result] (address honeypot_token) = Some honeypot_result
   \<and> is_honeypot honeypot_result
   \<and> 0 \<le> risk_score honeypot_token
   \<and> risk_score (verify_contracts_token [locked_address \<mapsto> honeypot_result] honeypot_token) = 50
   \<and> risk_level (verify_contracts_token [locked_address \<mapsto> honeypot_result] honeypot_token)
       = Srednij"
proof -
  have a: "[locked_address \<mapsto> honeypot_result] (address honeypot_token) = Some honeypot_result"
    by (simp add: honeypot_token_fields)
  have b: "is_honeypot honeypot_result" by (rule honeypot_result_fields)
  have c: "0 \<le> risk_score honeypot_token" by (simp add: honeypot_token_fields)
  note t = honeypot_verification_penalty [of "[locked_address \<mapsto> honeypot_result]"
      honeypot_token honeypot_result example_config None, OF a b c]
  from t honeypot_after_verify
  have d: "risk_score (verify_contracts_token [locked_address \<mapsto> honeypot_result] honeypot_token) = 50"
    and e: "risk_level (verify_contracts_token [locked_address \<mapsto> honeypot_result] honeypot_token)
       = Srednij"
    by simp_all
  show ?thesis by (intro conjI) (fact a b c d e)+
qed

text \<open>
  The claim as stated fails. GoPlus reports the token as a verified honeypot, and
  \<open>check_liquidity_lock\<close> finds its lock in the table of known locks (lock score 100);
  the token has 500000 USD of liquidity, an age of 1000 hours and a website. The
  verification stage puts it at "Srednij", not at "Skam", and the pipeline leaves it at
  the best level with risk score 0, because \<open>calculate_risk_score\<close> starts again from 0
  and never reads \<open>is_honeypot\<close>.
\<close>

theorem honeypot_rated_lowest_risk:
  "honeypot_results = Inr [locked_address \<mapsto> honeypot_result]
   \<and> is_honeypot honeypot_result
   \<and> get_lock_score honeypot_lock = 100
   \<and> risk_level (verify_contracts_token [locked_address \<mapsto> honeypot_result] honeypot_token)
       = Srednij
   \<and> risk_level (analyze_token example_config [locked_address \<mapsto> honeypot_result]
                    (Some (Inr honeypot_lock)) honeypot_token) = Nizkij
   \<and> risk_score (analyze_token example_config [locked_address \<mapsto> honeypot_result]
                    (Some (Inr honeypot_lock)) honeypot_token) = 0"
proof -
  let ?v = "verify_contracts_token [locked_address \<mapsto> honeypot_result] honeypot_token"
  let ?c = "check_liquidity_locks_token (Some (Inr honeypot_lock)) ?v"
  have v: "liquidity_usd ?v = 500000" "age_hours ?v = 1000"
    "info ?v = [(''websites'', [''https://example.org''])]"
    "price_change_24h ?v = 0" "volume_24h ?v = 0" "buys_24h ?v = 0" "sells_24h ?v = 0"
    "pair_address ?v \<noteq> []" "address ?v \<noteq> []" "network ?v \<noteq> []"
    "verification_result ?v = Some honeypot_result"
    by (simp_all add: verify_contracts_token_def honeypot_token_fields honeypot_result_fields
        Let_def add_risk_def locked_address_def)
  have c: "liquidity_usd ?c = 500000" "age_hours ?c = 1000"
    "info ?c = [(''websites'', [''https://example.org''])]"
    "price_change_24h ?c = 0" "volume_24h ?c = 0" "buys_24h ?c = 0" "sells_24h ?c = 0"
    "liquidity_lock_score ?c = Some 100" "liquidity_lock_info ?c = Some honeypot_lock"
    "verification_result ?c = Some honeypot_result"
    by (simp_all add: check_liquidity_locks_token_def v honeypot_lock_score)
  have s: "score (accumulate_score example_config ?c) = 0"
    by (simp add: scoring_defs c example_config_def)
  have hl: "is_locked honeypot_lock" "locked_percentage honeypot_lock = 100"
    by (simp_all add: honeypot_lock_value LiquidityLockInfo_default_def)
  have p: "lock_percentage_of ?c = 100"
    by (simp add: lock_percentage_of_def c hl)
  have l: "risk_level (Token_calculate_risk_score example_config ?c) = Nizkij"
    by (simp add: risk_level_after s threshold_level_def low_score_level_def p c
        medium_gate_def high_gate_def Let_def)
  have r: "risk_score (Token_calculate_risk_score example_config ?c) = 0"
    by (simp add: risk_score_after s)
  from l r honeypot_results_value honeypot_result_fields(1) honeypot_lock_score
    honeypot_after_verify(2)
  show ?thesis by (simp add: analyze_token_def)
qed

end
